theory Spec2Isabelle
  imports Complex_Main
begin

section \<open>The session broker: data model\<close>

text \<open>
  A shallow embedding of \<^verbatim>\<open>packages/broker/main.py\<close>. The relational tables, the Redis
  lock keys, the in-memory websocket registry and the save directory are fields of one
  state record; every request handler and every tick of a background loop is a function
  from a state to a result and a state. A raised Python exception is the \<open>Inl\<close> branch of
  the result, and the state that is returned with it holds the writes made before the
  raise (each statement is committed on its own, there is no transaction in the source).

  Conventions of the embedding:
  \<^item> instants are integer seconds, and every clock read of one handler run or one loop
    tick (\<^verbatim>\<open>datetime.utcnow()\<close>, SQL \<^verbatim>\<open>NOW()\<close>, the Redis clock) returns the same
    instant \<open>now\<close>;
  \<^item> a \<^verbatim>\<open>REAL\<close> column holds a \<open>real\<close> (rounding to single precision and its range are
    left out), a nullable column an \<open>option\<close>;
  \<^item> strings are ASCII;
  \<^item> the replies of the game's RCON channel, the JSON parser, the outcome of writing a
    save file, the reachability of a websocket and the text of a timestamp are inputs
    (record \<open>env\<close>), one environment per handler run or tick;
  \<^item> a handler run or a tick is one step: steps are not interleaved.
\<close>

subsection \<open>Configuration\<close>

definition TOTAL_SLOTS :: nat where "TOTAL_SLOTS = 20"
definition BASE_RCON_PORT :: nat where "BASE_RCON_PORT = 27000"
definition BASE_UDP_PORT :: nat where "BASE_UDP_PORT = 34197"
definition SESSION_TIMEOUT_HOURS :: int where "SESSION_TIMEOUT_HOURS = 2"
definition SAVES_DIR :: string where "SAVES_DIR = ''/var/claudetorio/saves''"

subsection \<open>JSON values and exceptions\<close>

datatype json =
    JNull
  | JBool bool
  | JNum real
  | JStr string
  | JArr "json list"
  | JObj "(string \<times> json) list"

text \<open>
  \<^verbatim>\<open>d.get(k)\<close> on a parsed object. An object is the list of its members in order; the
  keys of a dictionary are distinct.
\<close>

definition jget :: "(string \<times> json) list \<Rightarrow> string \<Rightarrow> json option" where
  "jget kv k = map_of kv k"

text \<open>
  \<open>HTTPException c\<close> is FastAPI's exception with status code \<open>c\<close>; \<open>Exception\<close> is any
  other exception (an RCON, file system or database driver error).
\<close>

datatype exc = HTTPException nat | Exception

subsection \<open>Tables\<close>

datatype status = Active | Completed | Expired

record session =
  session_id :: string
  username :: string
  slot :: nat
  started_at :: int
  ended_at :: "int option"
  final_score :: "real option"
  status :: status
  save_loaded :: "string option"
  save_created :: "string option"

record user =
  best_score :: real
  total_playtime_seconds :: int

record save =
  sv_username :: string
  save_name :: string
  file_path :: string
  created_at :: int
  last_played :: int
  score_at_save :: "real option"
  playtime_seconds :: int

record score_sample =
  h_username :: string
  h_session_id :: string
  recorded_at :: int
  score :: "real option"
  items_produced :: json

record snapshot =
  sn_final_score :: "real option"
  sn_playtime_seconds :: int
  research_data :: json
  production_data :: json
  inventory_data :: json
  factory_data :: json

text \<open>
  The whole state. \<open>users\<close> and \<open>session_snapshots\<close> are keyed by their primary key;
  \<open>sessions\<close>, \<open>saves\<close> and \<open>score_history\<close> are the rows in insertion order.
  \<open>slot_locks\<close> is the Redis key \<^verbatim>\<open>slot_lock:<slot>\<close> with its value and the instant at
  which it expires. \<open>active_websockets\<close> is the dictionary of the same name, a websocket
  being a number. \<open>files\<close> is the set of paths that exist under the save directory.
\<close>

record broker =
  sessions :: "session list"
  users :: "string \<rightharpoonup> user"
  saves :: "save list"
  score_history :: "score_sample list"
  session_snapshots :: "string \<rightharpoonup> snapshot"
  slot_locks :: "nat \<rightharpoonup> string \<times> int"
  active_websockets :: "string \<rightharpoonup> nat list"
  files :: "string set"

definition init_db :: broker where
  "init_db = \<lparr>sessions = [], users = Map.empty, saves = [], score_history = [],
     session_snapshots = Map.empty, slot_locks = Map.empty,
     active_websockets = Map.empty, files = {}\<rparr>"

subsection \<open>The environment of one step\<close>

datatype save_outcome = SaveRaises | SaveCopied | SaveFileMissing

text \<open>
  \<open>rcon_score sl\<close> is the reply to the score command on slot \<open>sl\<close> (\<open>None\<close>: connecting or
  sending raised); \<open>rcon_render sl r\<close> the reply to the render command with radius \<open>r\<close>;
  \<open>json_loads\<close> is \<^verbatim>\<open>json.loads\<close> (\<open>None\<close>: it raised);
  \<open>research\<close>, \<open>production\<close>, \<open>inventory\<close> and \<open>factory\<close> are the dictionaries that the four
  snapshot queries return (each catches every exception of its own);
  \<open>snapshot_store_ok\<close> tells whether the insert of the snapshot row goes through;
  \<open>save_slot sl\<close> is what \<^verbatim>\<open>save_slot_state\<close> meets on slot \<open>sl\<close>;
  \<open>ws_reachable w\<close> tells whether \<^verbatim>\<open>send_text\<close> to websocket \<open>w\<close> returns;
  \<open>strftime t\<close> is \<^verbatim>\<open>strftime('%Y%m%d_%H%M%S')\<close> of the instant \<open>t\<close>.
\<close>

record env =
  rcon_score :: "nat \<Rightarrow> string option"
  rcon_render :: "nat \<Rightarrow> int \<Rightarrow> string option"
  json_loads :: "string \<Rightarrow> json option"
  research :: "nat \<Rightarrow> json"
  production :: "nat \<Rightarrow> json"
  inventory :: "nat \<Rightarrow> json"
  factory :: "nat \<Rightarrow> json"
  snapshot_store_ok :: bool
  save_slot :: "nat \<Rightarrow> save_outcome"
  ws_reachable :: "nat \<Rightarrow> bool"
  strftime :: "int \<Rightarrow> string"

section \<open>Slot management\<close>

definition is_active :: "session \<Rightarrow> bool" where
  "is_active s = (status s = Active)"

text \<open>The rows of \<^verbatim>\<open>SELECT ... FROM sessions WHERE status = 'active'\<close>.\<close>

definition active_sessions :: "broker \<Rightarrow> session list" where
  "active_sessions st = filter is_active (sessions st)"

text \<open>\<^verbatim>\<open>get_free_slot\<close>: the first slot of \<^verbatim>\<open>range(TOTAL_SLOTS)\<close> outside the active set.\<close>

definition get_free_slot :: "broker \<Rightarrow> nat option" where
  "get_free_slot st =
     (let active_set = set (map slot (active_sessions st))
      in List.find (\<lambda>sl. sl \<notin> active_set) [0..<TOTAL_SLOTS])"


section \<open>Strings\<close>

text \<open>The white space of \<^verbatim>\<open>str.strip()\<close> and of the pattern \<^verbatim>\<open>\s\<close>, within ASCII.\<close>

definition isspace :: "char \<Rightarrow> bool" where
  "isspace c = (c \<in> set [CHR 0x09, CHR 0x0A, CHR 0x0B, CHR 0x0C, CHR 0x0D,
                          CHR 0x1C, CHR 0x1D, CHR 0x1E, CHR 0x1F, CHR 0x20])"

definition strip :: "string \<Rightarrow> string" where
  "strip s = rev (dropWhile isspace (rev (dropWhile isspace s)))"

text \<open>\<^verbatim>\<open>s.strip('"')\<close>: the double quotes at both ends are removed.\<close>

definition dquote :: char where "dquote = CHR 0x22"

definition strip_quotes :: "string \<Rightarrow> string" where
  "strip_quotes s =
     rev (dropWhile (\<lambda>c. c = dquote) (rev (dropWhile (\<lambda>c. c = dquote) s)))"

definition lower_char :: "char \<Rightarrow> char" where
  "lower_char c =
     (case map_of (zip ''ABCDEFGHIJKLMNOPQRSTUVWXYZ'' ''abcdefghijklmnopqrstuvwxyz'') c of
        Some d \<Rightarrow> d
      | None \<Rightarrow> c)"

definition lower :: "string \<Rightarrow> string" where
  "lower s = map lower_char s"

text \<open>\<^verbatim>\<open>sub in s\<close> on strings.\<close>

fun contains :: "string \<Rightarrow> string \<Rightarrow> bool" where
  "contains sub [] = (sub = [])"
| "contains sub (c # cs) = (take (length sub) (c # cs) = sub \<or> contains sub cs)"

definition isdigit :: "char \<Rightarrow> bool" where
  "isdigit c = (c \<in> set ''0123456789'')"

definition digit_val :: "char \<Rightarrow> int" where
  "digit_val c =
     (case map_of (zip ''0123456789'' [0, 1, 2, 3, 4, 5, 6, 7, 8, 9]) c of
        Some v \<Rightarrow> v
      | None \<Rightarrow> 0)"

definition int_of_digits :: "string \<Rightarrow> int" where
  "int_of_digits ds = foldl (\<lambda>a c. 10 * a + digit_val c) 0 ds"

text \<open>
  \<^verbatim>\<open>re.search(r'\["player"\]\s*=\s*(-?\d+)', response)\<close> followed by \<^verbatim>\<open>int(match.group(1))\<close>:
  \<open>match_player_at\<close> matches the pattern at the head of a string, \<open>re_search_player\<close> tries
  every start from the left. No part of the pattern can match in two ways (white space,
  \<open>=\<close>, \<open>-\<close> and digits are disjoint), so the first way is the only one. The interpreter's
  limit on the number of digits that \<^verbatim>\<open>int\<close> converts is left out.
\<close>

definition player_key :: string where
  "player_key = ''['' @ [dquote] @ ''player'' @ [dquote] @ '']''"

definition match_player_at :: "string \<Rightarrow> int option" where
  "match_player_at s =
     (if take (length player_key) s = player_key then
        (case dropWhile isspace (drop (length player_key) s) of
           [] \<Rightarrow> None
         | c # r \<Rightarrow>
             if c = CHR ''='' then
               (let t = dropWhile isspace r;
                    neg = (case t of [] \<Rightarrow> False | d # _ \<Rightarrow> d = CHR ''-'');
                    ds = takeWhile isdigit (if neg then tl t else t)
                in if ds = [] then None
                   else Some (if neg then - int_of_digits ds else int_of_digits ds))
             else None)
      else None)"

fun re_search_player :: "string \<Rightarrow> int option" where
  "re_search_player [] = None"
| "re_search_player (c # cs) =
     (case match_player_at (c # cs) of
        Some n \<Rightarrow> Some n
      | None \<Rightarrow> re_search_player cs)"

section \<open>The game control interface: reading the score\<close>

text \<open>The dictionary that \<^verbatim>\<open>_sync_get_slot_score\<close> returns; its keys \<^verbatim>\<open>raw\<close> and \<^verbatim>\<open>error\<close>
  are never read and are left out.\<close>

record score_data =
  sd_score :: json
  sd_items :: json

definition zero_score :: score_data where
  "zero_score = \<lparr>sd_score = JNum 0, sd_items = JObj []\<rparr>"

text \<open>
  \<^verbatim>\<open>_sync_get_slot_score\<close>. The outer \<^verbatim>\<open>except Exception\<close> gives the zero score when the
  connection or the command raises, and also when the parsed reply is not an object
  (\<^verbatim>\<open>data.get\<close> raises \<^verbatim>\<open>AttributeError\<close>).
\<close>

definition sync_get_slot_score :: "env \<Rightarrow> nat \<Rightarrow> score_data" where
  "sync_get_slot_score e sl =
     (case rcon_score e sl of
        None \<Rightarrow> zero_score
      | Some response \<Rightarrow>
          if response = [] then zero_score
          else
            (case re_search_player response of
               Some n \<Rightarrow> \<lparr>sd_score = JNum (of_int n), sd_items = JObj []\<rparr>
             | None \<Rightarrow>
                 (case json_loads e response of
                    None \<Rightarrow> zero_score
                  | Some (JObj kv) \<Rightarrow>
                      \<lparr>sd_score = (case jget kv ''player'' of Some v \<Rightarrow> v | None \<Rightarrow> JNum 0),
                       sd_items = JObj kv\<rparr>
                  | Some _ \<Rightarrow> zero_score)))"

definition get_slot_score :: "env \<Rightarrow> nat \<Rightarrow> score_data" where
  "get_slot_score e sl = sync_get_slot_score e sl"

text \<open>
  What the database driver does with a Python value bound to a \<^verbatim>\<open>REAL\<close> parameter: a
  number is stored, \<^verbatim>\<open>None\<close> is \<^verbatim>\<open>NULL\<close>, anything else raises.
\<close>

fun pg_real :: "json \<Rightarrow> exc + real option" where
  "pg_real (JNum r) = Inr (Some r)"
| "pg_real JNull = Inr None"
| "pg_real (JBool b) = Inr (Some (if b then 1 else 0))"
| "pg_real (JStr _) = Inl Exception"
| "pg_real (JArr _) = Inl Exception"
| "pg_real (JObj _) = Inl Exception"

section \<open>Locks and save files\<close>

definition lock_held :: "broker \<Rightarrow> int \<Rightarrow> nat \<Rightarrow> bool" where
  "lock_held st now sl =
     (case slot_locks st sl of None \<Rightarrow> False | Some (u, expires) \<Rightarrow> now < expires)"

text \<open>\<^verbatim>\<open>claim_slot_lock\<close>: \<^verbatim>\<open>SET key username NX EX 7200\<close>.\<close>

definition claim_slot_lock :: "nat \<Rightarrow> string \<Rightarrow> int \<Rightarrow> broker \<Rightarrow> bool \<times> broker" where
  "claim_slot_lock sl uname now st =
     (if lock_held st now sl then (False, st)
      else (True, st\<lparr>slot_locks :=
              (slot_locks st)(sl \<mapsto> (uname, now + SESSION_TIMEOUT_HOURS * 3600))\<rparr>))"

definition release_slot_lock :: "nat \<Rightarrow> broker \<Rightarrow> broker" where
  "release_slot_lock sl st = st\<lparr>slot_locks := (slot_locks st)(sl := None)\<rparr>"

text \<open>
  \<^verbatim>\<open>config.SAVES_DIR / username / f"{save_name}.zip"\<close>. A last part that starts with a
  slash replaces what stands before it; no other normalisation of paths is modelled.
\<close>

definition save_path :: "string \<Rightarrow> string \<Rightarrow> string" where
  "save_path uname nm =
     (case nm of
        c # _ \<Rightarrow> if c = CHR ''/'' then nm @ ''.zip''
                 else SAVES_DIR @ ''/'' @ uname @ ''/'' @ nm @ ''.zip''
      | [] \<Rightarrow> SAVES_DIR @ ''/'' @ uname @ ''/'' @ nm @ ''.zip'')"

text \<open>
  \<^verbatim>\<open>save_slot_state\<close>: any exception is printed and raised again; when the game's save
  file is missing only a warning is printed.
\<close>

definition save_slot_state :: "env \<Rightarrow> nat \<Rightarrow> string \<Rightarrow> broker \<Rightarrow> (exc + unit) \<times> broker" where
  "save_slot_state e sl path st =
     (case save_slot e sl of
        SaveRaises \<Rightarrow> (Inl Exception, st)
      | SaveCopied \<Rightarrow> (Inr (), st\<lparr>files := insert path (files st)\<rparr>)
      | SaveFileMissing \<Rightarrow> (Inr (), st))"

section \<open>Statements on the tables\<close>

definition same_save :: "string \<Rightarrow> string \<Rightarrow> save \<Rightarrow> bool" where
  "same_save uname nm r = (sv_username r = uname \<and> save_name r = nm)"

text \<open>
  \<^verbatim>\<open>INSERT INTO saves ... ON CONFLICT (username, save_name) DO UPDATE SET ...\<close>: \<open>upd\<close> is
  the \<^verbatim>\<open>SET\<close> clause, applied to the row that is already there.
\<close>

definition insert_save_on_conflict :: "save \<Rightarrow> (save \<Rightarrow> save) \<Rightarrow> broker \<Rightarrow> broker" where
  "insert_save_on_conflict row upd st =
     (if list_ex (same_save (sv_username row) (save_name row)) (saves st)
      then st\<lparr>saves := map (\<lambda>r. if same_save (sv_username row) (save_name row) r
                                  then upd r else r) (saves st)\<rparr>
      else st\<lparr>saves := saves st @ [row]\<rparr>)"

definition new_save :: "string \<Rightarrow> string \<Rightarrow> real option \<Rightarrow> int \<Rightarrow> int \<Rightarrow> save" where
  "new_save uname nm sc playtime now =
     \<lparr>sv_username = uname, save_name = nm, file_path = save_path uname nm,
      created_at = now, last_played = now, score_at_save = sc, playtime_seconds = playtime\<rparr>"

text \<open>The upsert of \<^verbatim>\<open>release_session\<close>.\<close>

definition upsert_save_release ::
  "string \<Rightarrow> string \<Rightarrow> real option \<Rightarrow> int \<Rightarrow> int \<Rightarrow> broker \<Rightarrow> broker" where
  "upsert_save_release uname nm sc playtime now st =
     insert_save_on_conflict (new_save uname nm sc playtime now)
       (\<lambda>r. r\<lparr>last_played := now, score_at_save := sc,
               playtime_seconds := playtime_seconds r + playtime\<rparr>) st"

text \<open>The upsert of \<^verbatim>\<open>session_timeout_checker\<close>.\<close>

definition upsert_save_autosave ::
  "string \<Rightarrow> string \<Rightarrow> real option \<Rightarrow> int \<Rightarrow> int \<Rightarrow> broker \<Rightarrow> broker" where
  "upsert_save_autosave uname nm sc playtime now st =
     insert_save_on_conflict (new_save uname nm sc playtime now)
       (\<lambda>r. r\<lparr>last_played := now, score_at_save := sc\<rparr>) st"

text \<open>
  \<^verbatim>\<open>UPDATE users SET best_score = GREATEST(best_score, $1), total_playtime_seconds =
  total_playtime_seconds + $2 WHERE username = $3\<close>; \<^verbatim>\<open>GREATEST\<close> skips a \<^verbatim>\<open>NULL\<close>.
\<close>

definition update_user_stats :: "real option \<Rightarrow> int \<Rightarrow> string \<Rightarrow> broker \<Rightarrow> broker" where
  "update_user_stats sc playtime uname st =
     (case users st uname of
        None \<Rightarrow> st
      | Some u \<Rightarrow>
          st\<lparr>users := (users st)(uname \<mapsto>
                u\<lparr>best_score := (case sc of None \<Rightarrow> best_score u
                                    | Some x \<Rightarrow> max (best_score u) x),
                  total_playtime_seconds := total_playtime_seconds u + playtime\<rparr>)\<rparr>)"

text \<open>\<^verbatim>\<open>UPDATE sessions SET ... WHERE session_id = $n\<close> with the \<^verbatim>\<open>SET\<close> clause \<open>upd\<close>.\<close>

definition update_session :: "string \<Rightarrow> (session \<Rightarrow> session) \<Rightarrow> broker \<Rightarrow> broker" where
  "update_session sid upd st =
     st\<lparr>sessions := map (\<lambda>s. if session_id s = sid then upd s else s) (sessions st)\<rparr>"

section \<open>Claiming a session\<close>

text \<open>
  The request body of a claim. The response keeps the fields that are computed from the
  slot; the strings built from the configuration (MCP settings, spectate address, stream
  URL) are left out. \<open>background\<close> is the task handed to \<^verbatim>\<open>background_tasks\<close>.
\<close>

record claim_request =
  req_username :: string
  req_save_name :: "string option"

datatype bg_task = LoadSaveToSlot nat string | ResetSlot nat

record claim_response =
  c_session_id :: string
  c_username :: string
  c_slot :: nat
  c_rcon_port :: nat
  c_udp_port :: nat
  c_expires_at :: int
  background :: bg_task

text \<open>\<^verbatim>\<open>if request.save_name:\<close> holds for a name that is given and not empty.\<close>

definition given_name :: "string option \<Rightarrow> string option" where
  "given_name nm = (case nm of None \<Rightarrow> None | Some n \<Rightarrow> if n = [] then None else Some n)"

definition find_active_by_user :: "broker \<Rightarrow> string \<Rightarrow> session option" where
  "find_active_by_user st uname =
     List.find (\<lambda>s. username s = uname \<and> status s = Active) (sessions st)"

definition find_active_by_id :: "broker \<Rightarrow> string \<Rightarrow> session option" where
  "find_active_by_id st sid =
     List.find (\<lambda>s. session_id s = sid \<and> status s = Active) (sessions st)"

definition find_by_id :: "broker \<Rightarrow> string \<Rightarrow> session option" where
  "find_by_id st sid = List.find (\<lambda>s. session_id s = sid) (sessions st)"

text \<open>\<^verbatim>\<open>INSERT INTO users (username) VALUES ($1) ON CONFLICT DO NOTHING\<close>.\<close>

definition ensure_user :: "string \<Rightarrow> broker \<Rightarrow> broker" where
  "ensure_user uname st =
     (case users st uname of
        Some _ \<Rightarrow> st
      | None \<Rightarrow> st\<lparr>users := (users st)(uname \<mapsto>
                     \<lparr>best_score = 0, total_playtime_seconds = 0\<rparr>)\<rparr>)"

definition new_session :: "string \<Rightarrow> string \<Rightarrow> nat \<Rightarrow> int \<Rightarrow> string option \<Rightarrow> session" where
  "new_session sid uname sl now nm =
     \<lparr>session_id = sid, username = uname, slot = sl, started_at = now, ended_at = None,
      final_score = None, status = Active, save_loaded = nm, save_created = None\<rparr>"

definition delete_session :: "string \<Rightarrow> broker \<Rightarrow> broker" where
  "delete_session sid st = st\<lparr>sessions := filter (\<lambda>s. session_id s \<noteq> sid) (sessions st)\<rparr>"

definition make_response :: "string \<Rightarrow> string \<Rightarrow> nat \<Rightarrow> int \<Rightarrow> bg_task \<Rightarrow> claim_response" where
  "make_response sid uname sl now task =
     \<lparr>c_session_id = sid, c_username = uname, c_slot = sl,
      c_rcon_port = BASE_RCON_PORT + sl, c_udp_port = BASE_UDP_PORT + sl,
      c_expires_at = now + SESSION_TIMEOUT_HOURS * 3600, background = task\<rparr>"

text \<open>
  The \<^verbatim>\<open>try\<close> block of \<^verbatim>\<open>claim_session\<close>, entered with the lock of slot \<open>sl\<close> held.
  \<open>new_id\<close> is \<^verbatim>\<open>str(uuid.uuid4())[:8]\<close>. The insert of the session raises when the id is
  already a primary key of the table; the handler of \<^verbatim>\<open>Exception\<close> then releases the lock
  and answers 500. A \<^verbatim>\<open>HTTPException\<close> passes through the handlers unchanged.
\<close>

definition claim_create :: "claim_request \<Rightarrow> string \<Rightarrow> nat \<Rightarrow> int \<Rightarrow> string \<Rightarrow> broker
    \<Rightarrow> (exc + claim_response) \<times> broker" where
  "claim_create request uname sl now new_id st =
     (let st1 = ensure_user uname st in
      if find_by_id st1 new_id \<noteq> None
      then (Inl (HTTPException 500), release_slot_lock sl st1)
      else
        (let st2 = st1\<lparr>sessions := sessions st1 @
                      [new_session new_id uname sl now (req_save_name request)]\<rparr>
         in case given_name (req_save_name request) of
              Some nm \<Rightarrow>
                if save_path uname nm \<in> files st2
                then (Inr (make_response new_id uname sl now
                             (LoadSaveToSlot sl (save_path uname nm))), st2)
                else (Inl (HTTPException 404),
                      delete_session new_id (release_slot_lock sl st2))
            | None \<Rightarrow> (Inr (make_response new_id uname sl now (ResetSlot sl)), st2)))"

text \<open>\<^verbatim>\<open>claim_session\<close>.\<close>

definition claim_session :: "claim_request \<Rightarrow> int \<Rightarrow> string \<Rightarrow> broker
    \<Rightarrow> (exc + claim_response) \<times> broker" where
  "claim_session request now new_id st =
     (let uname = strip (lower (req_username request)) in
      case find_active_by_user st uname of
        Some existing \<Rightarrow> (Inl (HTTPException 409), st)
      | None \<Rightarrow>
          (case get_free_slot st of
             None \<Rightarrow> (Inl (HTTPException 503), st)
           | Some sl \<Rightarrow>
               (case claim_slot_lock sl uname now st of
                  (False, st1) \<Rightarrow> (Inl (HTTPException 503), st1)
                | (True, st1) \<Rightarrow> claim_create request uname sl now new_id st1)))"

section \<open>Releasing a session\<close>

record release_response =
  r_final_score :: json
  r_playtime_minutes :: int
  r_saved_as :: "string option"

text \<open>
  The snapshot block of \<^verbatim>\<open>release_session\<close>: the four queries, then the upsert of the
  snapshot row. Whatever is raised inside is caught and printed, and the release goes on.
\<close>

definition capture_snapshot :: "env \<Rightarrow> string \<Rightarrow> nat \<Rightarrow> json \<Rightarrow> int \<Rightarrow> broker \<Rightarrow> broker" where
  "capture_snapshot e sid sl final playtime st =
     (if snapshot_store_ok e then
        (case pg_real final of
           Inl _ \<Rightarrow> st
         | Inr sc \<Rightarrow>
             st\<lparr>session_snapshots := (session_snapshots st)(sid \<mapsto>
                  \<lparr>sn_final_score = sc, sn_playtime_seconds = playtime,
                   research_data = research e sl, production_data = production e sl,
                   inventory_data = inventory e sl, factory_data = factory e sl\<rparr>)\<rparr>)
      else st)"

text \<open>
  The block \<^verbatim>\<open>if request.save_name:\<close> of \<^verbatim>\<open>release_session\<close>. Neither call stands in a
  \<^verbatim>\<open>try\<close>: what \<^verbatim>\<open>save_slot_state\<close> or the upsert raises leaves the handler.
\<close>

definition save_if_requested :: "env \<Rightarrow> nat \<Rightarrow> string \<Rightarrow> string option \<Rightarrow> json \<Rightarrow> int \<Rightarrow> int
    \<Rightarrow> broker \<Rightarrow> (exc + unit) \<times> broker" where
  "save_if_requested e sl uname nm final playtime now st =
     (case given_name nm of
        None \<Rightarrow> (Inr (), st)
      | Some n \<Rightarrow>
          (case save_slot_state e sl (save_path uname n) st of
             (Inl x, st1) \<Rightarrow> (Inl x, st1)
           | (Inr _, st1) \<Rightarrow>
               (case pg_real final of
                  Inl x \<Rightarrow> (Inl x, st1)
                | Inr sc \<Rightarrow> (Inr (), upsert_save_release uname n sc playtime now st1))))"

definition drop_websockets :: "string \<Rightarrow> broker \<Rightarrow> broker" where
  "drop_websockets sid st = st\<lparr>active_websockets := (active_websockets st)(sid := None)\<rparr>"

text \<open>\<^verbatim>\<open>release_session\<close>; \<open>nm\<close> is \<^verbatim>\<open>request.save_name\<close>.\<close>

definition release_session :: "env \<Rightarrow> string \<Rightarrow> string option \<Rightarrow> int \<Rightarrow> broker
    \<Rightarrow> (exc + release_response) \<times> broker" where
  "release_session e sid nm now st =
     (case find_active_by_id st sid of
        None \<Rightarrow> (Inl (HTTPException 404), st)
      | Some session \<Rightarrow>
          (let sl = slot session;
               uname = username session;
               final = sd_score (get_slot_score e sl);
               playtime = now - started_at session;
               st1 = capture_snapshot e sid sl final playtime st
           in case save_if_requested e sl uname nm final playtime now st1 of
                (Inl x, st2) \<Rightarrow> (Inl x, st2)
              | (Inr _, st2) \<Rightarrow>
                  (case pg_real final of
                     Inl x \<Rightarrow> (Inl x, st2)
                   | Inr sc \<Rightarrow>
                       (let st3 = update_session sid
                                    (\<lambda>s. s\<lparr>status := Completed, ended_at := Some now,
                                            final_score := sc, save_created := nm\<rparr>) st2;
                            st4 = update_user_stats sc playtime uname st3;
                            st5 = release_slot_lock sl st4;
                            st6 = drop_websockets sid st5
                        in (Inr \<lparr>r_final_score = final,
                                 r_playtime_minutes = playtime div 60,
                                 r_saved_as = nm\<rparr>, st6)))))"

section \<open>The timeout checker\<close>

text \<open>
  The body of the \<^verbatim>\<open>for\<close> loop of \<^verbatim>\<open>session_timeout_checker\<close> for one row \<open>s\<close> of the
  query. The autosave stands in a \<^verbatim>\<open>try\<close> whose handler prints; what the later
  statements raise leaves the loop.
\<close>

definition autosave :: "env \<Rightarrow> session \<Rightarrow> json \<Rightarrow> int \<Rightarrow> int \<Rightarrow> broker \<Rightarrow> broker" where
  "autosave e s final playtime now st =
     (let nm = ''autosave_'' @ strftime e now in
      case save_slot_state e (slot s) (save_path (username s) nm) st of
        (Inl _, st1) \<Rightarrow> st1
      | (Inr _, st1) \<Rightarrow>
          (case pg_real final of
             Inl _ \<Rightarrow> st1
           | Inr sc \<Rightarrow> upsert_save_autosave (username s) nm sc playtime now st1))"

definition expire_session :: "env \<Rightarrow> int \<Rightarrow> session \<Rightarrow> broker \<Rightarrow> (exc + unit) \<times> broker" where
  "expire_session e now s st =
     (let final = sd_score (get_slot_score e (slot s)) in
      case find_by_id st (session_id s) of
        None \<Rightarrow> (Inl Exception, st)
      | Some session_row \<Rightarrow>
          (let playtime = now - started_at session_row;
               st1 = autosave e s final playtime now st
           in case pg_real final of
                Inl x \<Rightarrow> (Inl x, st1)
              | Inr sc \<Rightarrow>
                  (let st2 = update_session (session_id s)
                               (\<lambda>r. r\<lparr>status := Expired, ended_at := Some now,
                                       final_score := sc\<rparr>) st1;
                       st3 = update_user_stats sc playtime (username s) st2;
                       st4 = release_slot_lock (slot s) st3
                   in (Inr (), st4))))"

fun expire_all :: "env \<Rightarrow> int \<Rightarrow> session list \<Rightarrow> broker \<Rightarrow> broker" where
  "expire_all e now [] st = st"
| "expire_all e now (s # rest) st =
     (case expire_session e now s st of
        (Inl _, st1) \<Rightarrow> st1
      | (Inr _, st1) \<Rightarrow> expire_all e now rest st1)"

text \<open>One pass of the \<^verbatim>\<open>while True\<close> loop of \<^verbatim>\<open>session_timeout_checker\<close>, after the sleep.\<close>

definition session_timeout_tick :: "env \<Rightarrow> int \<Rightarrow> broker \<Rightarrow> broker" where
  "session_timeout_tick e now st =
     (let cutoff = now - SESSION_TIMEOUT_HOURS * 3600;
          expired = filter (\<lambda>s. status s = Active \<and> started_at s < cutoff) (sessions st)
      in expire_all e now expired st)"

section \<open>Score polling and the websocket registry\<close>

text \<open>The message \<^verbatim>\<open>{"type": "score_update", "score": ..., "timestamp": ...}\<close>.\<close>

record score_update =
  m_score :: json
  m_timestamp :: int

text \<open>
  The inner loop over \<^verbatim>\<open>active_websockets[session_id]\<close>: \<^verbatim>\<open>send_text\<close> in a \<^verbatim>\<open>try\<close>
  whose handler is \<^verbatim>\<open>pass\<close>. The result lists the sends that went through, in order;
  the registry is only read.
\<close>

definition broadcast :: "env \<Rightarrow> string \<Rightarrow> score_update \<Rightarrow> broker \<Rightarrow> (nat \<times> score_update) list" where
  "broadcast e sid msg st =
     (case active_websockets st sid of
        None \<Rightarrow> []
      | Some wss \<Rightarrow> map (\<lambda>w. (w, msg)) (filter (ws_reachable e) wss))"

text \<open>
  The body of the \<^verbatim>\<open>for\<close> loop of \<^verbatim>\<open>score_polling_loop\<close> for one active session: read
  the score, insert the history row, broadcast. The result is the list of delivered
  messages and the new state.
\<close>

definition poll_session :: "env \<Rightarrow> int \<Rightarrow> session \<Rightarrow> broker
    \<Rightarrow> (exc + (nat \<times> score_update) list) \<times> broker" where
  "poll_session e now s st =
     (let score_data = get_slot_score e (slot s) in
      case pg_real (sd_score score_data) of
        Inl x \<Rightarrow> (Inl x, st)
      | Inr sc \<Rightarrow>
          (let st1 = st\<lparr>score_history := score_history st @
                        [\<lparr>h_username = username s, h_session_id = session_id s,
                          recorded_at = now, score = sc,
                          items_produced = sd_items score_data\<rparr>]\<rparr>
           in (Inr (broadcast e (session_id s)
                      \<lparr>m_score = sd_score score_data, m_timestamp = now\<rparr> st1), st1)))"

fun poll_all :: "env \<Rightarrow> int \<Rightarrow> session list \<Rightarrow> (nat \<times> score_update) list \<times> broker
    \<Rightarrow> (nat \<times> score_update) list \<times> broker" where
  "poll_all e now [] acc = acc"
| "poll_all e now (s # rest) (sent, st) =
     (case poll_session e now s st of
        (Inl _, st1) \<Rightarrow> (sent, st1)
      | (Inr out, st1) \<Rightarrow> poll_all e now rest (sent @ out, st1))"

text \<open>One pass of the \<^verbatim>\<open>while True\<close> loop of \<^verbatim>\<open>score_polling_loop\<close>, after the sleep.\<close>

definition score_polling_tick :: "env \<Rightarrow> int \<Rightarrow> broker \<Rightarrow> (nat \<times> score_update) list \<times> broker" where
  "score_polling_tick e now st = poll_all e now (active_sessions st) ([], st)"

text \<open>
  \<^verbatim>\<open>session_stream\<close> in two steps: the registration after the status check (a session that
  is missing or not active closes the socket with code 4004), and the \<^verbatim>\<open>finally\<close> block
  that runs when the socket disconnects (\<^verbatim>\<open>list.remove\<close> raises when the socket is not in
  the list).
\<close>

definition stream_open :: "string \<Rightarrow> nat \<Rightarrow> broker \<Rightarrow> (nat + unit) \<times> broker" where
  "stream_open sid w st =
     (case find_by_id st sid of
        None \<Rightarrow> (Inl 4004, st)
      | Some s \<Rightarrow>
          if status s \<noteq> Active then (Inl 4004, st)
          else (Inr (), st\<lparr>active_websockets := (active_websockets st)(sid \<mapsto>
                  (case active_websockets st sid of None \<Rightarrow> [] | Some wss \<Rightarrow> wss) @ [w])\<rparr>))"

definition stream_close :: "string \<Rightarrow> nat \<Rightarrow> broker \<Rightarrow> (exc + unit) \<times> broker" where
  "stream_close sid w st =
     (case active_websockets st sid of
        None \<Rightarrow> (Inr (), st)
      | Some wss \<Rightarrow>
          if w \<in> set wss
          then (Inr (), st\<lparr>active_websockets := (active_websockets st)(sid \<mapsto> remove1 w wss)\<rparr>)
          else (Inl Exception, st))"

section \<open>The entity list\<close>

record clean_entity =
  e_name :: string
  e_position :: json
  e_direction :: json

datatype entities_note = NoNote | ParseError | Raised | ActiveOnly

record entities_reply =
  entities :: "clean_entity list"
  total :: nat
  note_of :: entities_note

definition no_entities :: "entities_note \<Rightarrow> entities_reply" where
  "no_entities n = \<lparr>entities = [], total = 0, note_of = n\<rparr>"

text \<open>
  One pass of the cleaning loop: \<^verbatim>\<open>e.get\<close> raises unless \<open>e\<close> is an object, and
  \<^verbatim>\<open>.strip\<close> raises unless the name is a string.
\<close>

definition clean_one :: "json \<Rightarrow> clean_entity option" where
  "clean_one ent =
     (case ent of
        JObj kv \<Rightarrow>
          (case (case jget kv ''name'' of Some v \<Rightarrow> v | None \<Rightarrow> JStr ''unknown'') of
             JStr nm \<Rightarrow>
               Some \<lparr>e_name = strip_quotes nm,
                     e_position = (case jget kv ''position'' of Some v \<Rightarrow> v | None \<Rightarrow> JObj []),
                     e_direction = (case jget kv ''direction'' of Some v \<Rightarrow> v | None \<Rightarrow> JNum 0)\<rparr>
           | _ \<Rightarrow> None)
      | _ \<Rightarrow> None)"

fun clean_all :: "json list \<Rightarrow> clean_entity list option" where
  "clean_all [] = Some []"
| "clean_all (ent # rest) =
     (case clean_one ent of
        None \<Rightarrow> None
      | Some c \<Rightarrow> (case clean_all rest of None \<Rightarrow> None | Some cs \<Rightarrow> Some (c # cs)))"

text \<open>
  What follows \<^verbatim>\<open>data = json.loads(response)\<close>. \<^verbatim>\<open>data.get\<close> needs an object;
  \<^verbatim>\<open>entities[:200]\<close> needs a list or a string, and the characters of a string have no
  \<^verbatim>\<open>get\<close>. Every exception but the parser's ends in the outer handler.
\<close>

definition entities_of_data :: "json \<Rightarrow> entities_reply" where
  "entities_of_data data =
     (case data of
        JObj kv \<Rightarrow>
          (case (case jget kv ''entities'' of Some v \<Rightarrow> v | None \<Rightarrow> JArr []) of
             JArr ents \<Rightarrow>
               (case clean_all (take 200 ents) of
                  None \<Rightarrow> no_entities Raised
                | Some cs \<Rightarrow> \<lparr>entities = cs, total = length ents, note_of = NoNote\<rparr>)
           | JStr str \<Rightarrow> if str = [] then no_entities NoNote else no_entities Raised
           | _ \<Rightarrow> no_entities Raised)
      | _ \<Rightarrow> no_entities Raised)"

text \<open>\<^verbatim>\<open>_sync_get_entities_list\<close>.\<close>

definition sync_get_entities_list :: "env \<Rightarrow> nat \<Rightarrow> int \<Rightarrow> entities_reply" where
  "sync_get_entities_list e sl radius =
     (case rcon_render e sl radius of
        None \<Rightarrow> no_entities Raised
      | Some response \<Rightarrow>
          if response = [] \<or> contains ''Error'' response then no_entities NoNote
          else
            (case json_loads e response of
               None \<Rightarrow> no_entities ParseError
             | Some data \<Rightarrow> entities_of_data data))"

text \<open>\<^verbatim>\<open>get_session_entities\<close>.\<close>

definition get_session_entities :: "env \<Rightarrow> string \<Rightarrow> int \<Rightarrow> broker \<Rightarrow> exc + entities_reply" where
  "get_session_entities e sid radius st =
     (case find_by_id st sid of
        None \<Rightarrow> Inl (HTTPException 404)
      | Some s \<Rightarrow>
          if status s \<noteq> Active then Inr (no_entities ActiveOnly)
          else Inr (sync_get_entities_list e (slot s) radius))"

section \<open>Properties and example inputs\<close>

text \<open>The slots referenced by an active session.\<close>

definition active_slots :: "broker \<Rightarrow> nat set" where
  "active_slots st = slot ` set (active_sessions st)"

text \<open>
  No two active sessions on one slot, and no two active sessions of one user: the slots
  (user names) of the active rows, listed row by row, have no repetition.
\<close>

definition slot_user_inv :: "broker \<Rightarrow> bool" where
  "slot_user_inv st =
     (distinct (map slot (active_sessions st)) \<and> distinct (map username (active_sessions st)))"

text \<open>
  The states that the broker reaches from the empty database: each rule is one handler run
  or one tick of a background loop, with any request, instant and environment.
\<close>

inductive reachable :: "broker \<Rightarrow> bool" where
  r_init: "reachable init_db"
| r_claim: "reachable st \<Longrightarrow> reachable (snd (claim_session request now new_id st))"
| r_release: "reachable st \<Longrightarrow> reachable (snd (release_session e sid nm now st))"
| r_timeout: "reachable st \<Longrightarrow> reachable (session_timeout_tick e now st)"
| r_poll: "reachable st \<Longrightarrow> reachable (snd (score_polling_tick e now st))"
| r_stream_open: "reachable st \<Longrightarrow> reachable (snd (stream_open sid w st))"
| r_stream_close: "reachable st \<Longrightarrow> reachable (snd (stream_close sid w st))"

text \<open>The subscribers of a session, in the order of the registry.\<close>

definition subscribers :: "broker \<Rightarrow> string \<Rightarrow> nat list" where
  "subscribers st sid = (case active_websockets st sid of None \<Rightarrow> [] | Some wss \<Rightarrow> wss)"

text \<open>The history row that a poll of session \<open>s\<close> inserts when the game gives no reply.\<close>

definition zero_sample :: "session \<Rightarrow> int \<Rightarrow> score_sample" where
  "zero_sample s now =
     \<lparr>h_username = username s, h_session_id = session_id s, recorded_at = now,
      score = Some 0, items_produced = JObj []\<rparr>"

text \<open>The history row that a poll of session \<open>s\<close> inserts when the score can be stored.\<close>

definition sample_of :: "env \<Rightarrow> int \<Rightarrow> session \<Rightarrow> score_sample" where
  "sample_of e now s =
     \<lparr>h_username = username s, h_session_id = session_id s, recorded_at = now,
      score = (case pg_real (sd_score (get_slot_score e (slot s))) of
                 Inr sc \<Rightarrow> sc | Inl _ \<Rightarrow> None),
      items_produced = sd_items (get_slot_score e (slot s))\<rparr>"

definition storable :: "env \<Rightarrow> session \<Rightarrow> bool" where
  "storable e s = (case pg_real (sd_score (get_slot_score e (slot s))) of
                     Inr _ \<Rightarrow> True | Inl _ \<Rightarrow> False)"

subsection \<open>Example inputs\<close>

text \<open>
  The instants of the examples count seconds from midnight of 1 January 2026; \<open>stamp\<close>
  gives the timestamps of the two instants at which the examples run the timeout checker.
\<close>

definition stamp :: "int \<Rightarrow> string" where
  "stamp t = (if t = 7300 then ''20260101_020140'' else ''20260101_020320'')"

text \<open>An environment in which the game answers nothing and nothing can be written.\<close>

definition env_down :: env where
  "env_down =
     \<lparr>rcon_score = (\<lambda>sl. None), rcon_render = (\<lambda>sl r. None), json_loads = (\<lambda>s. None),
      research = (\<lambda>sl. JNull), production = (\<lambda>sl. JNull), inventory = (\<lambda>sl. JNull),
      factory = (\<lambda>sl. JNull), snapshot_store_ok = True, save_slot = (\<lambda>sl. SaveRaises),
      ws_reachable = (\<lambda>w. False), strftime = stamp\<rparr>"

text \<open>
  An environment in which the game reports the score 42, the render reply parses to two
  entities, saves are written and every websocket is reachable.
\<close>

definition score_reply :: string where
  "score_reply = ''{ ['' @ [dquote] @ ''player'' @ [dquote] @ ''] = 42, }''"

definition render_data :: json where
  "render_data =
     JObj [(''entities'',
            JArr [JObj [(''name'', JStr ([dquote] @ ''stone-furnace'' @ [dquote])),
                        (''position'', JObj [(''x'', JNum 1), (''y'', JNum 2)]),
                        (''direction'', JNum 4), (''health'', JNum 200)],
                  JObj [(''position'', JObj [(''x'', JNum 0), (''y'', JNum 0)])]])]"

definition env_up :: env where
  "env_up =
     \<lparr>rcon_score = (\<lambda>sl. Some score_reply), rcon_render = (\<lambda>sl r. Some ''render''),
      json_loads = (\<lambda>s. if s = ''render'' then Some render_data else None),
      research = (\<lambda>sl. JNull), production = (\<lambda>sl. JNull), inventory = (\<lambda>sl. JNull),
      factory = (\<lambda>sl. JNull), snapshot_store_ok = True, save_slot = (\<lambda>sl. SaveCopied),
      ws_reachable = (\<lambda>w. True), strftime = stamp\<rparr>"

definition req_bob :: claim_request where
  "req_bob = \<lparr>req_username = ''bob'', req_save_name = None\<rparr>"

definition req_amy :: claim_request where
  "req_amy = \<lparr>req_username = ''amy'', req_save_name = None\<rparr>"

text \<open>Bob claims at instant 100 and holds slot 0; then Amy claims and holds slot 1.\<close>

definition st_bob :: broker where
  "st_bob = snd (claim_session req_bob 100 ''aaaa0001'' init_db)"

definition st_bob_amy :: broker where
  "st_bob_amy = snd (claim_session req_amy 110 ''aaaa0002'' st_bob)"

text \<open>Websocket 7 subscribes to Bob's session.\<close>

definition st_bob_watched :: broker where
  "st_bob_watched = snd (stream_open ''aaaa0001'' 7 st_bob)"

text \<open>Bob releases his session without a save at instant 200.\<close>

definition st_bob_done :: broker where
  "st_bob_done = snd (release_session env_up ''aaaa0001'' None 200 st_bob)"


text \<open>The game of slot 0 gives no reply; the other slots report the score 42.\<close>

definition env_slot0_down :: env where
  "env_slot0_down = env_up\<lparr>rcon_score := (\<lambda>sl. if sl = 0 then None else Some score_reply)\<rparr>"

text \<open>Websockets 7 and 8 watch Bob's session; only websocket 8 can be reached.\<close>

definition st_bob_watched2 :: broker where
  "st_bob_watched2 = snd (stream_open ''aaaa0001'' 8 st_bob_watched)"

definition env_only8 :: env where
  "env_only8 = env_up\<lparr>ws_reachable := (\<lambda>w. w = 8)\<rparr>"

text \<open>The game answers, but writing a save file raises.\<close>

definition env_save_fails :: env where
  "env_save_fails = env_up\<lparr>save_slot := (\<lambda>sl. SaveRaises)\<rparr>"

text \<open>
  Bob plays from instant 10 to 40 and releases under a name of the autosave pattern; he
  claims again at instant 50 and lets that session run into the timeout, which the
  checker finds at instant 7300.
\<close>

definition st_first_play :: broker where
  "st_first_play =
     snd (release_session env_up ''aaaa0001'' (Some ''autosave_20260101_020140'') 40
            (snd (claim_session req_bob 10 ''aaaa0001'' init_db)))"

definition st_second_play :: broker where
  "st_second_play = snd (claim_session req_bob 50 ''aaaa0003'' st_first_play)"

text \<open>What the examples read off a row of the save table.\<close>

definition save_summary :: "save \<Rightarrow> string \<times> string \<times> real option \<times> int \<times> int" where
  "save_summary r =
     (sv_username r, save_name r, score_at_save r, last_played r, playtime_seconds r)"

text \<open>Every slot is taken: slot \<open>k\<close> holds the active session of user \<open>p\<close>\<open>k\<close>.\<close>

definition slot_tag :: "nat \<Rightarrow> string" where
  "slot_tag k = [''0123456789'' ! (k div 10), ''0123456789'' ! (k mod 10)]"

definition st_full :: broker where
  "st_full =
     init_db\<lparr>sessions :=
       map (\<lambda>k. new_session (''s'' @ slot_tag k) (''p'' @ slot_tag k) k 0 None)
         [0..<TOTAL_SLOTS]\<rparr>"

definition req_zoe :: claim_request where
  "req_zoe = \<lparr>req_username = ''zoe'', req_save_name = None\<rparr>"

section \<open>Lemmas on the statements\<close>

lemma find_upt_Some:
  "List.find P [0..<n] = Some k \<longleftrightarrow> k < n \<and> P k \<and> (\<forall>j<k. \<not> P j)"
  by (auto simp: find_Some_iff)

lemma find_upt_None: "List.find P [0..<n] = None \<longleftrightarrow> (\<forall>j<n. \<not> P j)"
  by (auto simp: find_None_iff)

lemma get_free_slot_Some:
  "get_free_slot st = Some k \<longleftrightarrow>
     k < TOTAL_SLOTS \<and> k \<notin> active_slots st \<and> (\<forall>j<k. j \<in> active_slots st)"
  by (simp add: get_free_slot_def find_upt_Some active_slots_def)

lemma get_free_slot_None:
  "get_free_slot st = None \<longleftrightarrow> (\<forall>j<TOTAL_SLOTS. j \<in> active_slots st)"
  by (simp add: get_free_slot_def find_upt_None active_slots_def)

lemma find_active_by_id_None:
  "find_active_by_id st sid = None \<longleftrightarrow>
     (\<forall>s\<in>set (sessions st). session_id s = sid \<longrightarrow> status s \<noteq> Active)"
  by (auto simp: find_active_by_id_def find_None_iff)

lemma find_active_by_user_None:
  "find_active_by_user st uname = None \<longleftrightarrow>
     (\<forall>s\<in>set (sessions st). username s = uname \<longrightarrow> status s \<noteq> Active)"
  by (auto simp: find_active_by_user_def find_None_iff)



subsection \<open>What each statement leaves alone\<close>

lemma ensure_user_frame:
  "sessions (ensure_user u st) = sessions st"
  "saves (ensure_user u st) = saves st"
  "score_history (ensure_user u st) = score_history st"
  "session_snapshots (ensure_user u st) = session_snapshots st"
  "slot_locks (ensure_user u st) = slot_locks st"
  "active_websockets (ensure_user u st) = active_websockets st"
  "files (ensure_user u st) = files st"
  by (simp_all add: ensure_user_def split: option.splits)

lemma release_slot_lock_frame:
  "sessions (release_slot_lock sl st) = sessions st"
  "users (release_slot_lock sl st) = users st"
  "saves (release_slot_lock sl st) = saves st"
  "score_history (release_slot_lock sl st) = score_history st"
  "session_snapshots (release_slot_lock sl st) = session_snapshots st"
  "active_websockets (release_slot_lock sl st) = active_websockets st"
  "files (release_slot_lock sl st) = files st"
  "slot_locks (release_slot_lock sl st) = (slot_locks st)(sl := None)"
  by (simp_all add: release_slot_lock_def)

lemma update_user_stats_frame:
  "sessions (update_user_stats sc p u st) = sessions st"
  "saves (update_user_stats sc p u st) = saves st"
  "score_history (update_user_stats sc p u st) = score_history st"
  "session_snapshots (update_user_stats sc p u st) = session_snapshots st"
  "slot_locks (update_user_stats sc p u st) = slot_locks st"
  "active_websockets (update_user_stats sc p u st) = active_websockets st"
  "files (update_user_stats sc p u st) = files st"
  by (simp_all add: update_user_stats_def split: option.splits)

lemma update_session_frame:
  "sessions (update_session sid upd st) =
     map (\<lambda>s. if session_id s = sid then upd s else s) (sessions st)"
  "users (update_session sid upd st) = users st"
  "saves (update_session sid upd st) = saves st"
  "score_history (update_session sid upd st) = score_history st"
  "session_snapshots (update_session sid upd st) = session_snapshots st"
  "slot_locks (update_session sid upd st) = slot_locks st"
  "active_websockets (update_session sid upd st) = active_websockets st"
  "files (update_session sid upd st) = files st"
  by (simp_all add: update_session_def)

lemma drop_websockets_frame:
  "sessions (drop_websockets sid st) = sessions st"
  "users (drop_websockets sid st) = users st"
  "saves (drop_websockets sid st) = saves st"
  "score_history (drop_websockets sid st) = score_history st"
  "session_snapshots (drop_websockets sid st) = session_snapshots st"
  "slot_locks (drop_websockets sid st) = slot_locks st"
  "files (drop_websockets sid st) = files st"
  "active_websockets (drop_websockets sid st) = (active_websockets st)(sid := None)"
  by (simp_all add: drop_websockets_def)

lemma insert_save_on_conflict_frame:
  "sessions (insert_save_on_conflict row upd st) = sessions st"
  "users (insert_save_on_conflict row upd st) = users st"
  "score_history (insert_save_on_conflict row upd st) = score_history st"
  "session_snapshots (insert_save_on_conflict row upd st) = session_snapshots st"
  "slot_locks (insert_save_on_conflict row upd st) = slot_locks st"
  "active_websockets (insert_save_on_conflict row upd st) = active_websockets st"
  "files (insert_save_on_conflict row upd st) = files st"
  by (simp_all add: insert_save_on_conflict_def)

lemma save_slot_state_frame:
  "sessions (snd (save_slot_state e sl p st)) = sessions st"
  "users (snd (save_slot_state e sl p st)) = users st"
  "saves (snd (save_slot_state e sl p st)) = saves st"
  "score_history (snd (save_slot_state e sl p st)) = score_history st"
  "session_snapshots (snd (save_slot_state e sl p st)) = session_snapshots st"
  "slot_locks (snd (save_slot_state e sl p st)) = slot_locks st"
  "active_websockets (snd (save_slot_state e sl p st)) = active_websockets st"
  by (simp_all add: save_slot_state_def split: save_outcome.splits)

lemma capture_snapshot_frame:
  "sessions (capture_snapshot e sid sl final p st) = sessions st"
  "users (capture_snapshot e sid sl final p st) = users st"
  "saves (capture_snapshot e sid sl final p st) = saves st"
  "score_history (capture_snapshot e sid sl final p st) = score_history st"
  "slot_locks (capture_snapshot e sid sl final p st) = slot_locks st"
  "active_websockets (capture_snapshot e sid sl final p st) = active_websockets st"
  "files (capture_snapshot e sid sl final p st) = files st"
  by (simp_all add: capture_snapshot_def split: sum.splits)

lemma save_if_requested_frame:
  "sessions (snd (save_if_requested e sl u nm final p now st)) = sessions st"
  "users (snd (save_if_requested e sl u nm final p now st)) = users st"
  "score_history (snd (save_if_requested e sl u nm final p now st)) = score_history st"
  "session_snapshots (snd (save_if_requested e sl u nm final p now st)) = session_snapshots st"
  "slot_locks (snd (save_if_requested e sl u nm final p now st)) = slot_locks st"
  "active_websockets (snd (save_if_requested e sl u nm final p now st)) = active_websockets st"
  by (simp_all add: save_if_requested_def upsert_save_release_def insert_save_on_conflict_frame
      save_slot_state_frame split: option.splits prod.splits sum.splits,
      (metis save_slot_state_frame snd_conv)+)

lemma autosave_frame:
  "sessions (autosave e s final p now st) = sessions st"
  "users (autosave e s final p now st) = users st"
  "score_history (autosave e s final p now st) = score_history st"
  "session_snapshots (autosave e s final p now st) = session_snapshots st"
  "slot_locks (autosave e s final p now st) = slot_locks st"
  "active_websockets (autosave e s final p now st) = active_websockets st"
  by (simp_all add: autosave_def Let_def upsert_save_autosave_def insert_save_on_conflict_frame
      split: option.splits prod.splits sum.splits,
      (metis save_slot_state_frame snd_conv)+)

subsection \<open>The invariant is kept by every step\<close>

lemma active_sessions_cong:
  "sessions st' = sessions st \<Longrightarrow> active_sessions st' = active_sessions st"
  by (simp add: active_sessions_def)

lemma slot_user_inv_sessions:
  "slot_user_inv st \<Longrightarrow> sessions st' = sessions st \<Longrightarrow> slot_user_inv st'"
  by (simp add: slot_user_inv_def active_sessions_def)

lemma slot_user_inv_filter:
  assumes "slot_user_inv st" and "active_sessions st' = filter P (active_sessions st)"
  shows "slot_user_inv st'"
  using assms by (simp add: slot_user_inv_def distinct_map_filter)

lemma active_sessions_terminate:
  assumes "\<And>s. status (upd s) \<noteq> Active"
  shows "active_sessions (update_session sid upd st) =
         filter (\<lambda>s. session_id s \<noteq> sid) (active_sessions st)"
proof -
  have "filter is_active (map (\<lambda>s. if session_id s = sid then upd s else s) xs) =
        filter (\<lambda>s. session_id s \<noteq> sid) (filter is_active xs)" for xs
    using assms by (induction xs) (auto simp: is_active_def)
  then show ?thesis
    by (simp add: active_sessions_def update_session_frame)
qed

lemma active_sessions_delete:
  "active_sessions (delete_session sid st) =
     filter (\<lambda>s. session_id s \<noteq> sid) (active_sessions st)"
  by (auto simp: active_sessions_def delete_session_def intro: filter_cong)

lemma slot_user_inv_add:
  assumes "slot_user_inv st" and "sl \<notin> active_slots st"
    and "find_active_by_user st uname = None"
  shows "slot_user_inv (st\<lparr>sessions := sessions st @ [new_session sid uname sl now nm]\<rparr>)"
proof -
  have u: "uname \<notin> username ` set (active_sessions st)"
    using assms(3)
    by (auto simp: find_active_by_user_None active_sessions_def is_active_def)
  show ?thesis
    using assms(1,2) u
    by (auto simp: slot_user_inv_def active_sessions_def active_slots_def new_session_def
        is_active_def)
qed

lemma claim_create_inv:
  assumes "slot_user_inv st" and "sl \<notin> active_slots st"
    and "find_active_by_user st uname = None"
  shows "slot_user_inv (snd (claim_create request uname sl now new_id st))"
proof -
  define st1 where "st1 = ensure_user uname st"
  define st2 where "st2 = st1\<lparr>sessions := sessions st1 @
                [new_session new_id uname sl now (req_save_name request)]\<rparr>"
  have s1: "sessions st1 = sessions st" by (simp add: st1_def ensure_user_frame)
  have i1: "slot_user_inv st1" using assms(1) s1 by (rule slot_user_inv_sessions)
  have a1: "sl \<notin> active_slots st1"
    using assms(2) s1 by (simp add: active_slots_def active_sessions_def)
  have u1: "find_active_by_user st1 uname = None"
    using assms(3) s1 by (simp add: find_active_by_user_def)
  have i2: "slot_user_inv st2" unfolding st2_def by (rule slot_user_inv_add[OF i1 a1 u1])
  have i3: "slot_user_inv (release_slot_lock sl st1)"
    using i1 by (rule slot_user_inv_sessions) (simp add: release_slot_lock_frame)
  have "slot_user_inv (release_slot_lock sl st2)"
    using i2 by (rule slot_user_inv_sessions) (simp add: release_slot_lock_frame)
  then have i4: "slot_user_inv (delete_session new_id (release_slot_lock sl st2))"
    by (rule slot_user_inv_filter) (rule active_sessions_delete)
  have eq: "claim_create request uname sl now new_id st =
     (if find_by_id st1 new_id \<noteq> None
      then (Inl (HTTPException 500), release_slot_lock sl st1)
      else
        (case given_name (req_save_name request) of
              Some nm \<Rightarrow>
                if save_path uname nm \<in> files st2
                then (Inr (make_response new_id uname sl now
                             (LoadSaveToSlot sl (save_path uname nm))), st2)
                else (Inl (HTTPException 404),
                      delete_session new_id (release_slot_lock sl st2))
            | None \<Rightarrow> (Inr (make_response new_id uname sl now (ResetSlot sl)), st2)))"
    unfolding claim_create_def st1_def st2_def Let_def ..
  show ?thesis
    unfolding eq using i2 i3 i4 by (simp split: option.splits)
qed

lemma claim_session_inv:
  assumes "slot_user_inv st"
  shows "slot_user_inv (snd (claim_session request now new_id st))"
proof -
  define uname where "uname = strip (lower (req_username request))"
  show ?thesis
  proof (cases "find_active_by_user st uname")
    case (Some a)
    then show ?thesis using assms by (simp add: claim_session_def Let_def uname_def)
  next
    case None
    show ?thesis
    proof (cases "get_free_slot st")
      case no: None
      then show ?thesis using assms None by (simp add: claim_session_def Let_def uname_def)
    next
      case (Some sl)
      show ?thesis
      proof (cases "lock_held st now sl")
        case True
        then show ?thesis
          using assms None Some by (simp add: claim_session_def Let_def uname_def claim_slot_lock_def)
      next
        case False
        define st1 where "st1 = st\<lparr>slot_locks :=
              (slot_locks st)(sl \<mapsto> (uname, now + SESSION_TIMEOUT_HOURS * 3600))\<rparr>"
        have s1: "sessions st1 = sessions st" by (simp add: st1_def)
        have i1: "slot_user_inv st1" using assms s1 by (rule slot_user_inv_sessions)
        have a1: "sl \<notin> active_slots st1"
          using Some s1 by (simp add: get_free_slot_Some active_slots_def active_sessions_def)
        have u1: "find_active_by_user st1 uname = None"
          using None s1 by (simp add: find_active_by_user_def)
        have "claim_session request now new_id st = claim_create request uname sl now new_id st1"
          using None Some False
          by (simp add: claim_session_def Let_def uname_def claim_slot_lock_def st1_def)
        then show ?thesis
          using claim_create_inv[OF i1 a1 u1] by simp
      qed
    qed
  qed
qed

lemma terminate_inv:
  assumes "slot_user_inv st" and "sessions st2 = sessions st"
    and "\<And>s. status (upd s) \<noteq> Active"
    and "sessions st' = sessions (update_session sid upd st2)"
  shows "slot_user_inv st'"
proof -
  have "active_sessions st' = active_sessions (update_session sid upd st2)"
    using assms(4) by (rule active_sessions_cong)
  also have "\<dots> = filter (\<lambda>s. session_id s \<noteq> sid) (active_sessions st2)"
    using assms(3) by (rule active_sessions_terminate)
  also have "active_sessions st2 = active_sessions st"
    using assms(2) by (rule active_sessions_cong)
  finally show ?thesis
    using assms(1) slot_user_inv_filter by blast
qed

text \<open>The last block of \<^verbatim>\<open>release_session\<close>, from the update of the session row on.\<close>

lemma release_session_unfold:
  assumes "find_active_by_id st sid = Some session"
  shows "release_session e sid nm now st =
    (case save_if_requested e (slot session) (username session) nm
            (sd_score (get_slot_score e (slot session))) (now - started_at session) now
            (capture_snapshot e sid (slot session) (sd_score (get_slot_score e (slot session)))
               (now - started_at session) st) of
       (Inl x, st2) \<Rightarrow> (Inl x, st2)
     | (Inr _, st2) \<Rightarrow>
         (case pg_real (sd_score (get_slot_score e (slot session))) of
            Inl x \<Rightarrow> (Inl x, st2)
          | Inr sc \<Rightarrow>
              (Inr \<lparr>r_final_score = sd_score (get_slot_score e (slot session)),
                    r_playtime_minutes = (now - started_at session) div 60,
                    r_saved_as = nm\<rparr>,
               drop_websockets sid (release_slot_lock (slot session)
                 (update_user_stats sc (now - started_at session) (username session)
                   (update_session sid
                      (\<lambda>s. s\<lparr>status := Completed, ended_at := Some now,
                              final_score := sc, save_created := nm\<rparr>) st2))))))"
  unfolding release_session_def Let_def using assms by simp

lemma release_session_inv:
  assumes "slot_user_inv st"
  shows "slot_user_inv (snd (release_session e sid nm now st))"
proof (cases "find_active_by_id st sid")
  case None
  then show ?thesis using assms by (simp add: release_session_def)
next
  case (Some session)
  define final where "final = sd_score (get_slot_score e (slot session))"
  define p where "p = now - started_at session"
  define st1 where "st1 = capture_snapshot e sid (slot session) final p st"
  obtain r st2 where sv:
    "save_if_requested e (slot session) (username session) nm final p now st1 = (r, st2)"
    by (cases "save_if_requested e (slot session) (username session) nm final p now st1")
  have "sessions st2 = sessions st1"
    using save_if_requested_frame(1)[of e "slot session" "username session" nm final p now st1] sv
    by simp
  then have s2: "sessions st2 = sessions st"
    by (simp add: st1_def capture_snapshot_frame)
  have i2: "slot_user_inv st2" using assms s2 by (rule slot_user_inv_sessions)
  note unf = release_session_unfold[OF Some, of e nm now, folded final_def p_def, folded st1_def,
      unfolded sv]
  show ?thesis
  proof (cases r)
    case (Inl x)
    then show ?thesis using i2 unfolding unf by simp
  next
    case (Inr u)
    show ?thesis
    proof (cases "pg_real final")
      case (Inl x)
      then show ?thesis using i2 Inr unfolding unf by simp
    next
      case sc: (Inr sc)
      let ?upd = "\<lambda>s. s\<lparr>status := Completed, ended_at := Some now,
                           final_score := sc, save_created := nm\<rparr>"
      let ?st6 = "drop_websockets sid (release_slot_lock (slot session)
                    (update_user_stats sc p (username session) (update_session sid ?upd st2)))"
      have "slot_user_inv ?st6"
        by (rule terminate_inv[OF assms s2, where upd = ?upd and sid = sid])
           (simp_all add: drop_websockets_frame release_slot_lock_frame update_user_stats_frame)
      then show ?thesis
        using Inr sc unfolding unf by simp
    qed
  qed
qed

lemma expire_session_unfold:
  assumes "find_by_id st (session_id s) = Some session_row"
  shows "expire_session e now s st =
    (case pg_real (sd_score (get_slot_score e (slot s))) of
       Inl x \<Rightarrow> (Inl x, autosave e s (sd_score (get_slot_score e (slot s)))
                          (now - started_at session_row) now st)
     | Inr sc \<Rightarrow>
         (Inr (), release_slot_lock (slot s)
            (update_user_stats sc (now - started_at session_row) (username s)
               (update_session (session_id s)
                  (\<lambda>r. r\<lparr>status := Expired, ended_at := Some now, final_score := sc\<rparr>)
                  (autosave e s (sd_score (get_slot_score e (slot s)))
                     (now - started_at session_row) now st)))))"
  unfolding expire_session_def Let_def using assms by simp

lemma expire_session_inv:
  assumes "slot_user_inv st"
  shows "slot_user_inv (snd (expire_session e now s st))"
proof (cases "find_by_id st (session_id s)")
  case None
  then show ?thesis using assms by (simp add: expire_session_def Let_def)
next
  case (Some row)
  define final where "final = sd_score (get_slot_score e (slot s))"
  define p where "p = now - started_at row"
  define st1 where "st1 = autosave e s final p now st"
  have s1: "sessions st1 = sessions st" by (simp add: st1_def autosave_frame)
  have i1: "slot_user_inv st1" using assms s1 by (rule slot_user_inv_sessions)
  note unf = expire_session_unfold[OF Some, of e now, folded final_def p_def, folded st1_def]
  show ?thesis
  proof (cases "pg_real final")
    case (Inl x)
    then show ?thesis using i1 unfolding unf by simp
  next
    case sc: (Inr sc)
    let ?upd = "\<lambda>r. r\<lparr>status := Expired, ended_at := Some now, final_score := sc\<rparr>"
    let ?st4 = "release_slot_lock (slot s)
                  (update_user_stats sc p (username s) (update_session (session_id s) ?upd st1))"
    have "slot_user_inv ?st4"
      by (rule terminate_inv[OF assms s1, where upd = ?upd and sid = "session_id s"])
         (simp_all add: release_slot_lock_frame update_user_stats_frame)
    then show ?thesis
      using sc unfolding unf by simp
  qed
qed

lemma expire_all_inv:
  "slot_user_inv st \<Longrightarrow> slot_user_inv (expire_all e now ss st)"
proof (induction ss arbitrary: st)
  case Nil
  then show ?case by simp
next
  case (Cons s ss)
  obtain r st1 where ex: "expire_session e now s st = (r, st1)"
    by (cases "expire_session e now s st")
  have "slot_user_inv st1"
    using expire_session_inv[OF Cons.prems, of e now s] ex by simp
  then show ?case
    using ex Cons.IH by (cases r) simp_all
qed

lemma session_timeout_tick_inv:
  "slot_user_inv st \<Longrightarrow> slot_user_inv (session_timeout_tick e now st)"
  by (simp add: session_timeout_tick_def Let_def expire_all_inv)

lemma poll_session_frame:
  "sessions (snd (poll_session e now s st)) = sessions st"
  "users (snd (poll_session e now s st)) = users st"
  "saves (snd (poll_session e now s st)) = saves st"
  "session_snapshots (snd (poll_session e now s st)) = session_snapshots st"
  "slot_locks (snd (poll_session e now s st)) = slot_locks st"
  "active_websockets (snd (poll_session e now s st)) = active_websockets st"
  "files (snd (poll_session e now s st)) = files st"
  by (simp_all add: poll_session_def Let_def split: sum.splits)

lemma poll_all_frame:
  "sessions (snd (poll_all e now ss (sent, st))) = sessions st \<and>
   users (snd (poll_all e now ss (sent, st))) = users st \<and>
   saves (snd (poll_all e now ss (sent, st))) = saves st \<and>
   session_snapshots (snd (poll_all e now ss (sent, st))) = session_snapshots st \<and>
   slot_locks (snd (poll_all e now ss (sent, st))) = slot_locks st \<and>
   active_websockets (snd (poll_all e now ss (sent, st))) = active_websockets st \<and>
   files (snd (poll_all e now ss (sent, st))) = files st"
proof (induction ss arbitrary: sent st)
  case Nil
  then show ?case by simp
next
  case (Cons s ss)
  obtain r st1 where ps: "poll_session e now s st = (r, st1)"
    by (cases "poll_session e now s st")
  have f: "sessions st1 = sessions st" "users st1 = users st" "saves st1 = saves st"
    "session_snapshots st1 = session_snapshots st" "slot_locks st1 = slot_locks st"
    "active_websockets st1 = active_websockets st" "files st1 = files st"
    using poll_session_frame[of e now s st] ps by simp_all
  show ?case
  proof (cases r)
    case (Inl x)
    then show ?thesis using ps f by simp
  next
    case (Inr out)
    then show ?thesis using ps f Cons.IH[of "sent @ out" st1] by simp
  qed
qed

lemma score_polling_tick_frame:
  "sessions (snd (score_polling_tick e now st)) = sessions st"
  "active_websockets (snd (score_polling_tick e now st)) = active_websockets st"
  "session_snapshots (snd (score_polling_tick e now st)) = session_snapshots st"
  "slot_locks (snd (score_polling_tick e now st)) = slot_locks st"
  "saves (snd (score_polling_tick e now st)) = saves st"
  "users (snd (score_polling_tick e now st)) = users st"
  by (simp_all add: score_polling_tick_def poll_all_frame)

lemma stream_frame:
  "sessions (snd (stream_open sid w st)) = sessions st"
  "sessions (snd (stream_close sid w st)) = sessions st"
  by (simp_all add: stream_open_def stream_close_def split: option.splits)

lemma reachable_inv: "reachable st \<Longrightarrow> slot_user_inv st"
proof (induction rule: reachable.induct)
  case r_init
  show ?case by (simp add: slot_user_inv_def active_sessions_def init_db_def)
next
  case (r_claim st request now new_id)
  then show ?case by (simp add: claim_session_inv)
next
  case (r_release st e sid nm now)
  then show ?case by (simp add: release_session_inv)
next
  case (r_timeout st e now)
  then show ?case by (simp add: session_timeout_tick_inv)
next
  case (r_poll st e now)
  from r_poll.IH show ?case by (rule slot_user_inv_sessions) (simp add: score_polling_tick_frame)
next
  case (r_stream_open st sid w)
  from r_stream_open.IH show ?case by (rule slot_user_inv_sessions) (simp add: stream_frame)
next
  case (r_stream_close st sid w)
  from r_stream_close.IH show ?case by (rule slot_user_inv_sessions) (simp add: stream_frame)
qed


section \<open>The slot allocator\<close>

lemma claim_session_slot:
  assumes "fst (claim_session request now new_id st) = Inr r"
  shows "get_free_slot st = Some (c_slot r)"
  using assms
  by (auto simp: claim_session_def claim_create_def Let_def make_response_def claim_slot_lock_def
      split: option.splits if_splits prod.splits bool.splits)

text \<open>
  Claim C9. The slot that a claim tries is the smallest slot of \<open>[0, TOTAL_SLOTS)\<close> that no
  active session references: \<^verbatim>\<open>get_free_slot\<close> returns \<open>k\<close> exactly when \<open>k\<close> is in range, is
  free, and every smaller slot is taken; it returns slot 0 when no session is active; it
  returns nothing exactly when every slot is taken. A claim that succeeds is on that slot,
  and when every slot is taken a claim of a user without an active session is answered
  503 and changes nothing.
\<close>

theorem first_free_slot:
  "(get_free_slot st = Some k \<longleftrightarrow>
      k < TOTAL_SLOTS \<and> k \<notin> active_slots st \<and> (\<forall>j<k. j \<in> active_slots st))
   \<and> (get_free_slot st = None \<longleftrightarrow> (\<forall>j<TOTAL_SLOTS. j \<in> active_slots st))
   \<and> (active_sessions st = [] \<longrightarrow> get_free_slot st = Some 0)
   \<and> (fst (claim_session request now new_id st) = Inr r \<longrightarrow>
        get_free_slot st = Some (c_slot r))
   \<and> ((\<forall>j<TOTAL_SLOTS. j \<in> active_slots st) \<and>
        find_active_by_user st (strip (lower (req_username request))) = None \<longrightarrow>
        claim_session request now new_id st = (Inl (HTTPException 503), st))"
proof -
  have a: "active_sessions st = [] \<longrightarrow> get_free_slot st = Some 0"
    by (simp add: get_free_slot_Some active_slots_def TOTAL_SLOTS_def)
  have b: "(\<forall>j<TOTAL_SLOTS. j \<in> active_slots st) \<and>
        find_active_by_user st (strip (lower (req_username request))) = None \<longrightarrow>
        claim_session request now new_id st = (Inl (HTTPException 503), st)"
    by (auto simp: claim_session_def Let_def get_free_slot_None[symmetric])
  show ?thesis
    using a b get_free_slot_Some get_free_slot_None claim_session_slot by blast
qed

theorem first_free_slot_witness:
  "get_free_slot init_db = Some 0 \<and> get_free_slot st_bob = Some 1 \<and>
   fst (claim_session req_amy 110 ''aaaa0002'' st_bob) =
     Inr (make_response ''aaaa0002'' ''amy'' 1 110 (ResetSlot 1)) \<and>
   get_free_slot st_full = None \<and>
   claim_session req_zoe 120 ''aaaa0003'' st_full = (Inl (HTTPException 503), st_full)"
proof -
  have e: "active_sessions init_db = []"
    by (simp add: active_sessions_def init_db_def)
  have f: "fst (claim_session req_amy 110 ''aaaa0002'' st_bob) =
     Inr (make_response ''aaaa0002'' ''amy'' 1 110 (ResetSlot 1))"
    by (simp add: TOTAL_SLOTS_def SESSION_TIMEOUT_HOURS_def BASE_RCON_PORT_def BASE_UDP_PORT_def
        isspace_def strip_def lower_char_def lower_def init_db_def is_active_def
        active_sessions_def get_free_slot_def upt_conv_Cons lock_held_def
        claim_slot_lock_def release_slot_lock_def given_name_def find_active_by_user_def
        find_by_id_def ensure_user_def new_session_def delete_session_def make_response_def
        claim_create_def claim_session_def Let_def st_bob_def req_bob_def req_amy_def)
  have c: "c_slot (make_response ''aaaa0002'' ''amy'' 1 110 (ResetSlot 1)) = 1"
    by (simp add: make_response_def)
  have "active_sessions st_full = sessions st_full"
    by (simp add: active_sessions_def st_full_def is_active_def new_session_def filter_map
        comp_def)
  then have "active_slots st_full = {0..<TOTAL_SLOTS}"
    by (simp add: active_slots_def st_full_def new_session_def image_image)
  then have full: "\<forall>j<TOTAL_SLOTS. j \<in> active_slots st_full"
    by simp
  have z: "find_active_by_user st_full (strip (lower (req_username req_zoe))) = None"
    by (simp add: find_active_by_user_None st_full_def init_db_def new_session_def
        req_zoe_def isspace_def strip_def lower_char_def lower_def)
  have h0: "get_free_slot init_db = Some 0"
    using e first_free_slot[of init_db 0 req_amy 110 "''aaaa0002''"
        "make_response ''aaaa0002'' ''amy'' 1 110 (ResetSlot 1)"]
    by blast
  have h1: "get_free_slot st_bob =
      Some (c_slot (make_response ''aaaa0002'' ''amy'' 1 110 (ResetSlot 1)))"
    using f first_free_slot[of st_bob 1 req_amy 110 "''aaaa0002''"
        "make_response ''aaaa0002'' ''amy'' 1 110 (ResetSlot 1)"]
    by blast
  have h2: "get_free_slot st_full = None \<and>
      claim_session req_zoe 120 ''aaaa0003'' st_full = (Inl (HTTPException 503), st_full)"
    using full z first_free_slot[of st_full 0 req_zoe 120 "''aaaa0003''"
        "make_response ''aaaa0002'' ''amy'' 1 110 (ResetSlot 1)"]
    by blast
  from h0 h1 h2 f show ?thesis unfolding c by blast
qed

section \<open>One active session per slot and per user\<close>

lemma distinct_map_count:
  "distinct (map f xs) \<Longrightarrow> length (filter (\<lambda>x. f x = v) xs) \<le> 1"
proof (induction xs)
  case Nil
  then show ?case by simp
next
  case (Cons x xs)
  have "f x = v \<Longrightarrow> filter (\<lambda>y. f y = v) xs = []"
    using Cons.prems by (auto simp: filter_empty_conv image_iff)
  then show ?case using Cons by auto
qed

text \<open>
  Claim C3. In every state that the broker reaches, at most one active session references
  a given slot and at most one active session belongs to a given user. A claim, a release
  and a pass of the timeout checker each keep the invariant, and a claim of a user who has
  an active session is answered 409 and changes nothing. Every handler run and every pass
  of a background loop is one step here; the interleaving of two handlers at their
  \<^verbatim>\<open>await\<close> points is outside the model.
\<close>

theorem one_active_session_per_slot_and_user:
  "(reachable st \<longrightarrow>
      slot_user_inv st \<and>
      (\<forall>sl. length (filter (\<lambda>s. slot s = sl) (active_sessions st)) \<le> 1) \<and>
      (\<forall>u. length (filter (\<lambda>s. username s = u) (active_sessions st)) \<le> 1))
   \<and> (slot_user_inv st \<longrightarrow>
        slot_user_inv (snd (claim_session request now new_id st)) \<and>
        slot_user_inv (snd (release_session e sid nm now st)) \<and>
        slot_user_inv (session_timeout_tick e now st))
   \<and> ((\<exists>s\<in>set (sessions st).
          username s = strip (lower (req_username request)) \<and> status s = Active) \<longrightarrow>
        claim_session request now new_id st = (Inl (HTTPException 409), st))"
proof -
  have a: "reachable st \<longrightarrow>
      slot_user_inv st \<and>
      (\<forall>sl. length (filter (\<lambda>s. slot s = sl) (active_sessions st)) \<le> 1) \<and>
      (\<forall>u. length (filter (\<lambda>s. username s = u) (active_sessions st)) \<le> 1)"
  proof
    assume "reachable st"
    then have i: "slot_user_inv st" by (rule reachable_inv)
    then have d: "distinct (map slot (active_sessions st))"
      "distinct (map username (active_sessions st))"
      by (simp_all add: slot_user_inv_def)
    have "\<forall>sl. length (filter (\<lambda>s. slot s = sl) (active_sessions st)) \<le> 1"
      using d(1) by (blast intro: distinct_map_count)
    moreover have "\<forall>u. length (filter (\<lambda>s. username s = u) (active_sessions st)) \<le> 1"
      using d(2) by (blast intro: distinct_map_count)
    ultimately show "slot_user_inv st \<and>
      (\<forall>sl. length (filter (\<lambda>s. slot s = sl) (active_sessions st)) \<le> 1) \<and>
      (\<forall>u. length (filter (\<lambda>s. username s = u) (active_sessions st)) \<le> 1)"
      using i by blast
  qed
  have b: "slot_user_inv st \<longrightarrow>
        slot_user_inv (snd (claim_session request now new_id st)) \<and>
        slot_user_inv (snd (release_session e sid nm now st)) \<and>
        slot_user_inv (session_timeout_tick e now st)"
    by (simp add: claim_session_inv release_session_inv session_timeout_tick_inv)
  have c: "(\<exists>s\<in>set (sessions st).
          username s = strip (lower (req_username request)) \<and> status s = Active) \<longrightarrow>
        claim_session request now new_id st = (Inl (HTTPException 409), st)"
  proof
    assume "\<exists>s\<in>set (sessions st).
          username s = strip (lower (req_username request)) \<and> status s = Active"
    then have "find_active_by_user st (strip (lower (req_username request))) \<noteq> None"
      by (auto simp: find_active_by_user_None)
    then show "claim_session request now new_id st = (Inl (HTTPException 409), st)"
      by (auto simp: claim_session_def Let_def)
  qed
  from a b c show ?thesis by blast
qed

theorem one_active_session_per_slot_and_user_witness:
  "reachable st_bob_amy \<and> slot_user_inv st_bob_amy \<and>
   slot_user_inv (snd (release_session env_up ''aaaa0001'' None 120 st_bob_amy)) \<and>
   claim_session req_bob 120 ''aaaa0003'' st_bob_amy = (Inl (HTTPException 409), st_bob_amy)"
proof -
  have r: "reachable st_bob_amy"
    unfolding st_bob_amy_def st_bob_def by (intro reachable.intros)
  have u: "\<exists>s\<in>set (sessions st_bob_amy).
          username s = strip (lower (req_username req_bob)) \<and> status s = Active"
    by (simp add: TOTAL_SLOTS_def SESSION_TIMEOUT_HOURS_def BASE_RCON_PORT_def BASE_UDP_PORT_def
        isspace_def strip_def lower_char_def lower_def init_db_def is_active_def
        active_sessions_def get_free_slot_def upt_conv_Cons lock_held_def
        claim_slot_lock_def release_slot_lock_def given_name_def find_active_by_user_def
        find_by_id_def ensure_user_def new_session_def delete_session_def make_response_def
        claim_create_def claim_session_def Let_def st_bob_def st_bob_amy_def req_bob_def
        req_amy_def)
  show ?thesis
    using r u
      one_active_session_per_slot_and_user[of st_bob_amy req_bob 120 "''aaaa0003''"
        env_up "''aaaa0001''" None]
    by blast
qed

section \<open>Release of a session that is not active\<close>

text \<open>
  Claim C8. A release of a session id that no row has, or whose row is not active, is
  answered 404 and leaves the whole state as it was: no table, lock, file or subscriber
  list changes, so a session that has ended is not ended again.
\<close>

theorem release_inactive_not_found:
  "(\<forall>s\<in>set (sessions st). session_id s = sid \<longrightarrow> status s \<noteq> Active) \<Longrightarrow>
   release_session e sid nm now st = (Inl (HTTPException 404), st)"
  by (simp add: release_session_def find_active_by_id_None[symmetric])

theorem release_inactive_not_found_witness:
  "status (hd (sessions st_bob_done)) = Completed \<and>
   release_session env_up ''aaaa0001'' (Some ''s1'') 300 st_bob_done =
     (Inl (HTTPException 404), st_bob_done) \<and>
   release_session env_up ''zzzz9999'' None 300 st_bob_done =
     (Inl (HTTPException 404), st_bob_done)"
proof -
  have d: "status (hd (sessions st_bob_done)) = Completed"
    by (simp add: TOTAL_SLOTS_def SESSION_TIMEOUT_HOURS_def BASE_RCON_PORT_def BASE_UDP_PORT_def
        isspace_def strip_def lower_char_def lower_def init_db_def is_active_def
        active_sessions_def get_free_slot_def upt_conv_Cons lock_held_def
        claim_slot_lock_def release_slot_lock_def given_name_def find_active_by_user_def
        find_by_id_def ensure_user_def new_session_def delete_session_def make_response_def
        claim_create_def claim_session_def Let_def dquote_def isdigit_def digit_val_def
        int_of_digits_def player_key_def match_player_at_def zero_score_def
        sync_get_slot_score_def get_slot_score_def save_path_def save_slot_state_def
        same_save_def insert_save_on_conflict_def new_save_def update_user_stats_def
        update_session_def find_active_by_id_def capture_snapshot_def save_if_requested_def
        upsert_save_release_def drop_websockets_def release_session_def env_up_def
        score_reply_def st_bob_def st_bob_done_def req_bob_def)
  have a: "\<forall>s\<in>set (sessions st_bob_done). session_id s = ''aaaa0001'' \<longrightarrow> status s \<noteq> Active"
    by (simp add: TOTAL_SLOTS_def SESSION_TIMEOUT_HOURS_def BASE_RCON_PORT_def BASE_UDP_PORT_def
        isspace_def strip_def lower_char_def lower_def init_db_def is_active_def
        active_sessions_def get_free_slot_def upt_conv_Cons lock_held_def
        claim_slot_lock_def release_slot_lock_def given_name_def find_active_by_user_def
        find_by_id_def ensure_user_def new_session_def delete_session_def make_response_def
        claim_create_def claim_session_def Let_def dquote_def isdigit_def digit_val_def
        int_of_digits_def player_key_def match_player_at_def zero_score_def
        sync_get_slot_score_def get_slot_score_def save_path_def save_slot_state_def
        same_save_def insert_save_on_conflict_def new_save_def update_user_stats_def
        update_session_def find_active_by_id_def capture_snapshot_def save_if_requested_def
        upsert_save_release_def drop_websockets_def release_session_def env_up_def
        score_reply_def st_bob_def st_bob_done_def req_bob_def)
  have b: "\<forall>s\<in>set (sessions st_bob_done). session_id s = ''zzzz9999'' \<longrightarrow> status s \<noteq> Active"
    by (simp add: TOTAL_SLOTS_def SESSION_TIMEOUT_HOURS_def BASE_RCON_PORT_def BASE_UDP_PORT_def
        isspace_def strip_def lower_char_def lower_def init_db_def is_active_def
        active_sessions_def get_free_slot_def upt_conv_Cons lock_held_def
        claim_slot_lock_def release_slot_lock_def given_name_def find_active_by_user_def
        find_by_id_def ensure_user_def new_session_def delete_session_def make_response_def
        claim_create_def claim_session_def Let_def dquote_def isdigit_def digit_val_def
        int_of_digits_def player_key_def match_player_at_def zero_score_def
        sync_get_slot_score_def get_slot_score_def save_path_def save_slot_state_def
        same_save_def insert_save_on_conflict_def new_save_def update_user_stats_def
        update_session_def find_active_by_id_def capture_snapshot_def save_if_requested_def
        upsert_save_release_def drop_websockets_def release_session_def env_up_def
        score_reply_def st_bob_def st_bob_done_def req_bob_def)
  show ?thesis
    using d release_inactive_not_found[OF a, of env_up "Some ''s1''" 300]
      release_inactive_not_found[OF b, of env_up None 300]
    by simp
qed

section \<open>A claim that names a missing save\<close>









section \<open>The entity list\<close>

lemma clean_all_length: "clean_all xs = Some cs \<Longrightarrow> length cs = length xs"
  by (induction xs arbitrary: cs) (auto split: option.splits)

lemma clean_all_nth:
  "clean_all xs = Some cs \<Longrightarrow> i < length xs \<Longrightarrow> clean_one (xs ! i) = Some (cs ! i)"
proof (induction xs arbitrary: cs i)
  case Nil
  then show ?case by simp
next
  case (Cons x xs)
  then show ?case by (cases i) (auto split: option.splits)
qed

lemma entities_of_data_bound:
  "length (entities (entities_of_data data)) \<le> 200 \<and>
   length (entities (entities_of_data data)) \<le> total (entities_of_data data)"
proof -
  have "length cs \<le> 200 \<and> length cs \<le> length ents"
    if "clean_all (take 200 ents) = Some cs" for ents cs
    using clean_all_length[OF that] by simp
  then show ?thesis
    by (auto simp: entities_of_data_def no_entities_def
        split: json.splits option.splits)
qed

lemma sync_get_entities_list_bound:
  "length (entities (sync_get_entities_list e sl radius)) \<le> 200 \<and>
   length (entities (sync_get_entities_list e sl radius)) \<le>
     total (sync_get_entities_list e sl radius)"
  using entities_of_data_bound
  by (simp add: sync_get_entities_list_def no_entities_def split: option.splits)

text \<open>
  Claim C10. For every reply of the game, the entity query returns at most 200 entities,
  and never more than \<open>total\<close>. When the connection fails, or the reply is empty, contains
  \<^verbatim>\<open>Error\<close> or does not parse, the list is empty and \<open>total\<close> is 0. When the reply parses to
  an object whose \<^verbatim>\<open>entities\<close> is a list and each of its first 200 elements can be cleaned
  (an object whose name, if present, is a string), the list holds exactly those first
  200 elements, each reduced to name, position and direction, and \<open>total\<close> is the length
  of the whole list. For an active session the endpoint returns that result and does not
  raise.
\<close>

theorem entities_list_bounded:
  "length (entities (sync_get_entities_list e sl radius)) \<le> 200
   \<and> length (entities (sync_get_entities_list e sl radius)) \<le>
       total (sync_get_entities_list e sl radius)
   \<and> ((rcon_render e sl radius = None \<or>
        (\<exists>resp. rcon_render e sl radius = Some resp \<and>
           (resp = [] \<or> contains ''Error'' resp \<or> json_loads e resp = None))) \<longrightarrow>
       entities (sync_get_entities_list e sl radius) = [] \<and>
       total (sync_get_entities_list e sl radius) = 0)
   \<and> (rcon_render e sl radius = Some resp \<and> resp \<noteq> [] \<and> \<not> contains ''Error'' resp \<and>
       json_loads e resp = Some (JObj kv) \<and> jget kv ''entities'' = Some (JArr ents) \<and>
       clean_all (take 200 ents) = Some cs \<longrightarrow>
       entities (sync_get_entities_list e sl radius) = cs \<and>
       total (sync_get_entities_list e sl radius) = length ents \<and>
       length cs = min (length ents) 200 \<and>
       (\<forall>i<length cs. clean_one (ents ! i) = Some (cs ! i)))
   \<and> (find_by_id st sid = Some s \<and> status s = Active \<longrightarrow>
       get_session_entities e sid radius st =
         Inr (sync_get_entities_list e (slot s) radius))"
proof -
  have c: "(rcon_render e sl radius = None \<or>
        (\<exists>resp. rcon_render e sl radius = Some resp \<and>
           (resp = [] \<or> contains ''Error'' resp \<or> json_loads e resp = None))) \<longrightarrow>
       entities (sync_get_entities_list e sl radius) = [] \<and>
       total (sync_get_entities_list e sl radius) = 0"
    by (auto simp: sync_get_entities_list_def no_entities_def)
  have d: "rcon_render e sl radius = Some resp \<and> resp \<noteq> [] \<and> \<not> contains ''Error'' resp \<and>
       json_loads e resp = Some (JObj kv) \<and> jget kv ''entities'' = Some (JArr ents) \<and>
       clean_all (take 200 ents) = Some cs \<longrightarrow>
       entities (sync_get_entities_list e sl radius) = cs \<and>
       total (sync_get_entities_list e sl radius) = length ents \<and>
       length cs = min (length ents) 200 \<and>
       (\<forall>i<length cs. clean_one (ents ! i) = Some (cs ! i))"
  proof (intro impI, elim conjE)
    assume r: "rcon_render e sl radius = Some resp" "resp \<noteq> []" "\<not> contains ''Error'' resp"
      "json_loads e resp = Some (JObj kv)" "jget kv ''entities'' = Some (JArr ents)"
      and cl: "clean_all (take 200 ents) = Some cs"
    have l: "length cs = min (length ents) 200"
      using clean_all_length[OF cl] by simp
    have n: "clean_one (ents ! i) = Some (cs ! i)" if "i < length cs" for i
      using clean_all_nth[OF cl, of i] that l by simp
    have "sync_get_entities_list e sl radius =
            \<lparr>entities = cs, total = length ents, note_of = NoNote\<rparr>"
      using r cl by (simp add: sync_get_entities_list_def entities_of_data_def)
    then show "entities (sync_get_entities_list e sl radius) = cs \<and>
       total (sync_get_entities_list e sl radius) = length ents \<and>
       length cs = min (length ents) 200 \<and>
       (\<forall>i<length cs. clean_one (ents ! i) = Some (cs ! i))"
      using l n by simp
  qed
  have f: "find_by_id st sid = Some s \<and> status s = Active \<longrightarrow>
       get_session_entities e sid radius st =
         Inr (sync_get_entities_list e (slot s) radius)"
    by (simp add: get_session_entities_def)
  from sync_get_entities_list_bound[of e sl radius] c d f show ?thesis by blast
qed

theorem entities_list_bounded_witness:
  "get_session_entities env_up ''aaaa0001'' 50 st_bob =
     Inr (sync_get_entities_list env_up 0 50) \<and>
   entities (sync_get_entities_list env_up 0 50) =
     [\<lparr>e_name = ''stone-furnace'',
       e_position = JObj [(''x'', JNum 1), (''y'', JNum 2)], e_direction = JNum 4\<rparr>,
      \<lparr>e_name = ''unknown'',
       e_position = JObj [(''x'', JNum 0), (''y'', JNum 0)], e_direction = JNum 0\<rparr>] \<and>
   total (sync_get_entities_list env_up 0 50) = 2 \<and>
   entities (sync_get_entities_list env_down 0 50) = [] \<and>
   total (sync_get_entities_list env_down 0 50) = 0"
proof -
  define cs where "cs = [\<lparr>e_name = ''stone-furnace'',
              e_position = JObj [(''x'', JNum 1), (''y'', JNum 2)], e_direction = JNum 4\<rparr>,
             \<lparr>e_name = ''unknown'',
              e_position = JObj [(''x'', JNum 0), (''y'', JNum 0)], e_direction = JNum 0\<rparr>]"
  define ents where "ents = [JObj [(''name'', JStr ([dquote] @ ''stone-furnace'' @ [dquote])),
                        (''position'', JObj [(''x'', JNum 1), (''y'', JNum 2)]),
                        (''direction'', JNum 4), (''health'', JNum 200)],
                  JObj [(''position'', JObj [(''x'', JNum 0), (''y'', JNum 0)])]]"
  define bob where "bob = new_session ''aaaa0001'' ''bob'' 0 100 None"
  have h: "rcon_render env_up 0 50 = Some ''render'' \<and> ''render'' \<noteq> [] \<and>
       \<not> contains ''Error'' ''render'' \<and>
       json_loads env_up ''render'' = Some (JObj [(''entities'', JArr ents)]) \<and>
       jget [(''entities'', JArr ents)] ''entities'' = Some (JArr ents) \<and>
       clean_all (take 200 ents) = Some cs"
    by (simp add: env_up_def render_data_def jget_def clean_one_def strip_quotes_def dquote_def
        ents_def cs_def)
  have s: "find_by_id st_bob ''aaaa0001'' = Some bob \<and> status bob = Active"
    by (simp add: TOTAL_SLOTS_def SESSION_TIMEOUT_HOURS_def BASE_RCON_PORT_def BASE_UDP_PORT_def
        isspace_def strip_def lower_char_def lower_def init_db_def is_active_def
        active_sessions_def get_free_slot_def upt_conv_Cons lock_held_def
        claim_slot_lock_def release_slot_lock_def given_name_def find_active_by_user_def
        find_by_id_def ensure_user_def new_session_def delete_session_def make_response_def
        claim_create_def claim_session_def Let_def st_bob_def req_bob_def bob_def)
  have sl: "slot bob = 0" by (simp add: bob_def new_session_def)
  have dn: "rcon_render env_down 0 50 = None" by (simp add: env_down_def)
  have len: "length ents = 2" by (simp add: ents_def)
  note up = entities_list_bounded[of env_up 0 50 "''render''" "[(''entities'', JArr ents)]"
      ents cs st_bob "''aaaa0001''" bob]
  note down = entities_list_bounded[of env_down 0 50 "''render''" "[(''entities'', JArr ents)]"
      ents cs st_bob "''aaaa0001''" bob]
  from up h have a: "entities (sync_get_entities_list env_up 0 50) = cs \<and>
       total (sync_get_entities_list env_up 0 50) = length ents"
    by blast
  from up s have b: "get_session_entities env_up ''aaaa0001'' 50 st_bob =
         Inr (sync_get_entities_list env_up (slot bob) 50)"
    by blast
  from down dn have c: "entities (sync_get_entities_list env_down 0 50) = [] \<and>
       total (sync_get_entities_list env_down 0 50) = 0"
    by blast
  from a b c show ?thesis
    unfolding sl len cs_def by blast
qed

section \<open>Score polling\<close>

lemma score_of_failed_rcon:
  "rcon_score e sl = None \<Longrightarrow> get_slot_score e sl = zero_score"
  by (simp add: get_slot_score_def sync_get_slot_score_def)

lemma storable_failed_rcon: "rcon_score e (slot s) = None \<Longrightarrow> storable e s"
  by (simp add: storable_def score_of_failed_rcon zero_score_def)

lemma sample_of_failed_rcon:
  "rcon_score e (slot s) = None \<Longrightarrow> sample_of e now s = zero_sample s now"
  by (simp add: sample_of_def zero_sample_def score_of_failed_rcon zero_score_def)

lemma poll_session_storable:
  assumes "storable e s"
  shows "poll_session e now s st =
     (Inr (broadcast e (session_id s)
             \<lparr>m_score = sd_score (get_slot_score e (slot s)), m_timestamp = now\<rparr> st),
      st\<lparr>score_history := score_history st @ [sample_of e now s]\<rparr>)"
  using assms
  by (auto simp: poll_session_def storable_def sample_of_def Let_def broadcast_def
      split: sum.splits)

lemma poll_session_failed_rcon:
  assumes "rcon_score e (slot s) = None"
  shows "poll_session e now s st =
     (Inr (broadcast e (session_id s) \<lparr>m_score = JNum 0, m_timestamp = now\<rparr> st),
      st\<lparr>score_history := score_history st @ [zero_sample s now]\<rparr>)"
  using poll_session_storable[OF storable_failed_rcon[OF assms], of now st]
    sample_of_failed_rcon[OF assms, of now] score_of_failed_rcon[OF assms]
  by (simp add: zero_score_def)

lemma poll_all_history:
  "\<forall>t\<in>set ss. storable e t \<Longrightarrow>
   score_history (snd (poll_all e now ss (sent, st))) =
     score_history st @ map (sample_of e now) ss"
proof (induction ss arbitrary: sent st)
  case Nil
  then show ?case by simp
next
  case (Cons s ss)
  have "storable e s" using Cons.prems by simp
  note ps = poll_session_storable[OF this, of now st]
  have "\<forall>t\<in>set ss. storable e t" using Cons.prems by simp
  note ih = Cons.IH[OF this]
  show ?case by (simp add: ps ih)
qed

text \<open>
  Claim C5. When the game control interface fails for an active session (connecting or
  sending the score command raises), the poll of that session does not raise: it appends
  a history row with score 0 for the session, broadcasts the score 0 to its subscribers,
  and the loop goes on with the remaining sessions of the tick. In a tick in which every
  active session either meets such a failure or has a score that the history table can
  store, exactly one row per active session is appended, in the order of the query, and
  the rows of the failed sessions carry score 0.
\<close>

theorem poll_failure_scores_zero:
  "(rcon_score e (slot s) = None \<longrightarrow>
      poll_session e now s st =
        (Inr (broadcast e (session_id s) \<lparr>m_score = JNum 0, m_timestamp = now\<rparr> st),
         st\<lparr>score_history := score_history st @ [zero_sample s now]\<rparr>) \<and>
      poll_all e now (s # rest) (sent, st) =
        poll_all e now rest
          (sent @ broadcast e (session_id s) \<lparr>m_score = JNum 0, m_timestamp = now\<rparr> st,
           st\<lparr>score_history := score_history st @ [zero_sample s now]\<rparr>))
   \<and> score (zero_sample s now) = Some 0
   \<and> ((\<forall>t\<in>set (active_sessions st). rcon_score e (slot t) = None \<or> storable e t) \<longrightarrow>
        score_history (snd (score_polling_tick e now st)) =
          score_history st @ map (sample_of e now) (active_sessions st) \<and>
        (\<forall>t\<in>set (active_sessions st).
           rcon_score e (slot t) = None \<longrightarrow> sample_of e now t = zero_sample t now))"
proof -
  have a: "rcon_score e (slot s) = None \<longrightarrow>
      poll_session e now s st =
        (Inr (broadcast e (session_id s) \<lparr>m_score = JNum 0, m_timestamp = now\<rparr> st),
         st\<lparr>score_history := score_history st @ [zero_sample s now]\<rparr>) \<and>
      poll_all e now (s # rest) (sent, st) =
        poll_all e now rest
          (sent @ broadcast e (session_id s) \<lparr>m_score = JNum 0, m_timestamp = now\<rparr> st,
           st\<lparr>score_history := score_history st @ [zero_sample s now]\<rparr>)"
    by (simp add: poll_session_failed_rcon)
  have b: "score (zero_sample s now) = Some 0" by (simp add: zero_sample_def)
  have c: "(\<forall>t\<in>set (active_sessions st). rcon_score e (slot t) = None \<or> storable e t) \<longrightarrow>
        score_history (snd (score_polling_tick e now st)) =
          score_history st @ map (sample_of e now) (active_sessions st) \<and>
        (\<forall>t\<in>set (active_sessions st).
           rcon_score e (slot t) = None \<longrightarrow> sample_of e now t = zero_sample t now)"
  proof
    assume h: "\<forall>t\<in>set (active_sessions st). rcon_score e (slot t) = None \<or> storable e t"
    then have "\<forall>t\<in>set (active_sessions st). storable e t"
      using storable_failed_rcon by blast
    then have "score_history (snd (score_polling_tick e now st)) =
          score_history st @ map (sample_of e now) (active_sessions st)"
      unfolding score_polling_tick_def by (rule poll_all_history)
    then show "score_history (snd (score_polling_tick e now st)) =
          score_history st @ map (sample_of e now) (active_sessions st) \<and>
        (\<forall>t\<in>set (active_sessions st).
           rcon_score e (slot t) = None \<longrightarrow> sample_of e now t = zero_sample t now)"
      using sample_of_failed_rcon by blast
  qed
  from a b c show ?thesis by blast
qed

theorem poll_failure_scores_zero_witness:
  "map (\<lambda>r. (h_session_id r, score r))
     (score_history (snd (score_polling_tick env_slot0_down 130 st_bob_amy))) =
     [(''aaaa0001'', Some 0), (''aaaa0002'', Some 42)] \<and>
   poll_session env_slot0_down 130 (new_session ''aaaa0001'' ''bob'' 0 100 None) st_bob_amy =
     (Inr [], st_bob_amy\<lparr>score_history :=
        [zero_sample (new_session ''aaaa0001'' ''bob'' 0 100 None) 130]\<rparr>)"
proof -
  define bob where "bob = new_session ''aaaa0001'' ''bob'' 0 100 None"
  define amy where "amy = new_session ''aaaa0002'' ''amy'' 1 110 None"
  have act: "active_sessions st_bob_amy = [bob, amy]"
    by (simp add: TOTAL_SLOTS_def SESSION_TIMEOUT_HOURS_def BASE_RCON_PORT_def BASE_UDP_PORT_def
        isspace_def strip_def lower_char_def lower_def init_db_def is_active_def
        active_sessions_def get_free_slot_def upt_conv_Cons lock_held_def
        claim_slot_lock_def release_slot_lock_def given_name_def find_active_by_user_def
        find_by_id_def ensure_user_def new_session_def delete_session_def make_response_def
        claim_create_def claim_session_def Let_def st_bob_def st_bob_amy_def req_bob_def
        req_amy_def bob_def amy_def)
  have h0: "score_history st_bob_amy = []"
    by (simp add: TOTAL_SLOTS_def SESSION_TIMEOUT_HOURS_def BASE_RCON_PORT_def BASE_UDP_PORT_def
        isspace_def strip_def lower_char_def lower_def init_db_def is_active_def
        active_sessions_def get_free_slot_def upt_conv_Cons lock_held_def
        claim_slot_lock_def release_slot_lock_def given_name_def find_active_by_user_def
        find_by_id_def ensure_user_def new_session_def delete_session_def make_response_def
        claim_create_def claim_session_def Let_def st_bob_def st_bob_amy_def req_bob_def
        req_amy_def)
  have b: "rcon_score env_slot0_down (slot bob) = None"
    by (simp add: env_slot0_down_def bob_def new_session_def)
  have sa: "sample_of env_slot0_down 130 amy =
      \<lparr>h_username = ''amy'', h_session_id = ''aaaa0002'', recorded_at = 130,
       score = Some 42, items_produced = JObj []\<rparr>"
    by (simp add: sample_of_def amy_def new_session_def env_slot0_down_def env_up_def
        score_reply_def isspace_def dquote_def isdigit_def digit_val_def int_of_digits_def player_key_def
        match_player_at_def zero_score_def sync_get_slot_score_def get_slot_score_def)
  have a: "storable env_slot0_down amy"
    by (simp add: storable_def amy_def new_session_def env_slot0_down_def env_up_def
        score_reply_def isspace_def dquote_def isdigit_def digit_val_def int_of_digits_def player_key_def
        match_player_at_def zero_score_def sync_get_slot_score_def get_slot_score_def)
  have pre: "\<forall>t\<in>set (active_sessions st_bob_amy).
      rcon_score env_slot0_down (slot t) = None \<or> storable env_slot0_down t"
    using a b by (simp add: act)
  have nosub: "broadcast env_slot0_down (session_id bob) \<lparr>m_score = JNum 0, m_timestamp = 130\<rparr>
      st_bob_amy = []"
    by (simp add: broadcast_def TOTAL_SLOTS_def SESSION_TIMEOUT_HOURS_def BASE_RCON_PORT_def BASE_UDP_PORT_def
        isspace_def strip_def lower_char_def lower_def init_db_def is_active_def
        active_sessions_def get_free_slot_def upt_conv_Cons lock_held_def
        claim_slot_lock_def release_slot_lock_def given_name_def find_active_by_user_def
        find_by_id_def ensure_user_def new_session_def delete_session_def make_response_def
        claim_create_def claim_session_def Let_def st_bob_def st_bob_amy_def req_bob_def
        req_amy_def)
  from poll_failure_scores_zero[of env_slot0_down bob 130 st_bob_amy "[]" "[]"] b
  have one: "poll_session env_slot0_down 130 bob st_bob_amy =
        (Inr (broadcast env_slot0_down (session_id bob) \<lparr>m_score = JNum 0, m_timestamp = 130\<rparr>
                st_bob_amy),
         st_bob_amy\<lparr>score_history := score_history st_bob_amy @ [zero_sample bob 130]\<rparr>)"
    by blast
  from poll_failure_scores_zero[of env_slot0_down bob 130 st_bob_amy "[]" "[]"] pre
  have hist: "score_history (snd (score_polling_tick env_slot0_down 130 st_bob_amy)) =
          score_history st_bob_amy @ map (sample_of env_slot0_down 130) (active_sessions st_bob_amy)"
    and z: "\<forall>t\<in>set (active_sessions st_bob_amy).
           rcon_score env_slot0_down (slot t) = None \<longrightarrow>
           sample_of env_slot0_down 130 t = zero_sample t 130"
    by blast+
  have sb: "sample_of env_slot0_down 130 bob = zero_sample bob 130"
    using z b by (simp add: act)
  have zb: "h_session_id (zero_sample bob 130) = ''aaaa0001'' \<and>
      score (zero_sample bob 130) = Some 0"
    by (simp add: zero_sample_def bob_def new_session_def)
  have "map (\<lambda>r. (h_session_id r, score r))
     (score_history (snd (score_polling_tick env_slot0_down 130 st_bob_amy))) =
     [(''aaaa0001'', Some 0), (''aaaa0002'', Some 42)]"
    unfolding hist h0 act by (simp add: sb sa zb)
  moreover have "poll_session env_slot0_down 130 bob st_bob_amy =
     (Inr [], st_bob_amy\<lparr>score_history := [zero_sample bob 130]\<rparr>)"
    unfolding one nosub h0 by simp
  ultimately show ?thesis unfolding bob_def by blast
qed

section \<open>Publishing to subscribers\<close>

text \<open>
  Claim C7 as stated fails: a websocket to which \<^verbatim>\<open>send_text\<close> raises stays in the list
  of its session. Here websocket 7 cannot be reached during a tick, is still registered
  after it, and is sent the next update once it can be reached again.
\<close>

theorem publish_keeps_unreachable_counterexample:
  "\<not> ws_reachable env_down 7 \<and>
   fst (score_polling_tick env_down 130 st_bob_watched) = [] \<and>
   subscribers (snd (score_polling_tick env_down 130 st_bob_watched)) ''aaaa0001'' = [7] \<and>
   fst (score_polling_tick env_up 160 (snd (score_polling_tick env_down 130 st_bob_watched))) =
     [(7, \<lparr>m_score = JNum 42, m_timestamp = 160\<rparr>)]"
  by (simp add: subscribers_def TOTAL_SLOTS_def SESSION_TIMEOUT_HOURS_def BASE_RCON_PORT_def BASE_UDP_PORT_def
        isspace_def strip_def lower_char_def lower_def init_db_def is_active_def
        active_sessions_def get_free_slot_def upt_conv_Cons lock_held_def
        claim_slot_lock_def release_slot_lock_def given_name_def find_active_by_user_def
        find_by_id_def ensure_user_def new_session_def delete_session_def make_response_def
        claim_create_def claim_session_def Let_def stream_open_def dquote_def isdigit_def
        digit_val_def int_of_digits_def player_key_def match_player_at_def zero_score_def
        sync_get_slot_score_def get_slot_score_def broadcast_def poll_session_def
        score_polling_tick_def env_down_def env_up_def score_reply_def st_bob_def
        st_bob_watched_def req_bob_def)

text \<open>
  Claim C7 as amended. A publish never changes the registry of subscribers: after a poll
  of one session and after a whole tick, \<^verbatim>\<open>active_websockets\<close> is what it was. A send that
  raises is swallowed: the message goes to exactly the subscribers that can be reached, in
  the order of the list, so one unreachable websocket neither stops the delivery to the
  others nor the poll; it stays subscribed and is tried again at the next publish.
\<close>

theorem publish_skips_unreachable:
  "active_websockets (snd (score_polling_tick e now st)) = active_websockets st
   \<and> active_websockets (snd (poll_session e now s st)) = active_websockets st
   \<and> map fst (broadcast e sid msg st) = filter (ws_reachable e) (subscribers st sid)
   \<and> (storable e s \<longrightarrow>
        (\<exists>out st'. poll_session e now s st = (Inr out, st') \<and>
           map fst out = filter (ws_reachable e) (subscribers st (session_id s)) \<and>
           subscribers st' (session_id s) = subscribers st (session_id s)))"
proof -
  have b: "map fst (broadcast e sid msg st) = filter (ws_reachable e) (subscribers st sid)"
    for sid msg
    by (simp add: broadcast_def subscribers_def comp_def split: option.splits)
  have c: "storable e s \<longrightarrow>
        (\<exists>out st'. poll_session e now s st = (Inr out, st') \<and>
           map fst out = filter (ws_reachable e) (subscribers st (session_id s)) \<and>
           subscribers st' (session_id s) = subscribers st (session_id s))"
    using poll_session_storable[of e s now st] b
    by (simp add: subscribers_def)
  show ?thesis
    using b c by (simp add: score_polling_tick_frame poll_session_frame)
qed

theorem publish_skips_unreachable_witness:
  "subscribers st_bob_watched2 ''aaaa0001'' = [7, 8] \<and>
   fst (poll_session env_only8 130 (new_session ''aaaa0001'' ''bob'' 0 100 None) st_bob_watched2) =
     Inr [(8, \<lparr>m_score = JNum 42, m_timestamp = 130\<rparr>)] \<and>
   subscribers (snd (score_polling_tick env_only8 130 st_bob_watched2)) ''aaaa0001'' = [7, 8]"
proof -
  define bob where "bob = new_session ''aaaa0001'' ''bob'' 0 100 None"
  have sub: "subscribers st_bob_watched2 ''aaaa0001'' = [7, 8]"
    by (simp add: subscribers_def TOTAL_SLOTS_def SESSION_TIMEOUT_HOURS_def BASE_RCON_PORT_def BASE_UDP_PORT_def
        isspace_def strip_def lower_char_def lower_def init_db_def is_active_def
        active_sessions_def get_free_slot_def upt_conv_Cons lock_held_def
        claim_slot_lock_def release_slot_lock_def given_name_def find_active_by_user_def
        find_by_id_def ensure_user_def new_session_def delete_session_def make_response_def
        claim_create_def claim_session_def Let_def stream_open_def st_bob_def
        st_bob_watched_def st_bob_watched2_def req_bob_def)
  have sc: "sd_score (get_slot_score env_only8 0) = JNum 42"
    by (simp add: env_only8_def env_up_def score_reply_def isspace_def dquote_def isdigit_def digit_val_def int_of_digits_def player_key_def
        match_player_at_def zero_score_def sync_get_slot_score_def get_slot_score_def)
  have a: "storable env_only8 bob"
    by (simp add: storable_def bob_def new_session_def sc)
  have p: "fst (poll_session env_only8 130 bob st_bob_watched2) =
      Inr (broadcast env_only8 ''aaaa0001'' \<lparr>m_score = JNum 42, m_timestamp = 130\<rparr>
             st_bob_watched2)"
    using poll_session_storable[OF a, of 130 st_bob_watched2]
    by (simp add: bob_def new_session_def sc)
  have r: "filter (ws_reachable env_only8) [7, 8] = [8]"
    by (simp add: env_only8_def)
  note T = publish_skips_unreachable[of env_only8 130 st_bob_watched2 bob "''aaaa0001''"
      "\<lparr>m_score = JNum 42, m_timestamp = 130\<rparr>"]
  from T have reg: "active_websockets (snd (score_polling_tick env_only8 130 st_bob_watched2)) =
      active_websockets st_bob_watched2"
    and del: "map fst (broadcast env_only8 ''aaaa0001''
        \<lparr>m_score = JNum 42, m_timestamp = 130\<rparr> st_bob_watched2) =
      filter (ws_reachable env_only8) (subscribers st_bob_watched2 ''aaaa0001'')"
    by blast+
  have bc: "broadcast env_only8 ''aaaa0001'' \<lparr>m_score = JNum 42, m_timestamp = 130\<rparr>
      st_bob_watched2 = [(8, \<lparr>m_score = JNum 42, m_timestamp = 130\<rparr>)]"
    using del sub r by (auto simp: broadcast_def subscribers_def split: option.splits)
  have "subscribers (snd (score_polling_tick env_only8 130 st_bob_watched2)) ''aaaa0001'' =
      subscribers st_bob_watched2 ''aaaa0001''"
    using reg by (simp add: subscribers_def)
  then show ?thesis
    using sub p bc unfolding bob_def by simp
qed

section \<open>Expiry against release\<close>

lemma expire_session_untouched:
  "session_snapshots (snd (expire_session e now s st)) = session_snapshots st \<and>
   active_websockets (snd (expire_session e now s st)) = active_websockets st"
proof (cases "find_by_id st (session_id s)")
  case None
  then show ?thesis by (simp add: expire_session_def Let_def)
next
  case (Some row)
  show ?thesis
    unfolding expire_session_unfold[OF Some]
    by (cases "pg_real (sd_score (get_slot_score e (slot s)))")
       (simp_all add: autosave_frame release_slot_lock_frame update_user_stats_frame
          update_session_frame)
qed

lemma expire_all_untouched:
  "session_snapshots (expire_all e now ss st) = session_snapshots st \<and>
   active_websockets (expire_all e now ss st) = active_websockets st"
proof (induction ss arbitrary: st)
  case Nil
  then show ?case by simp
next
  case (Cons s ss)
  obtain r st1 where ex: "expire_session e now s st = (r, st1)"
    by (cases "expire_session e now s st")
  have "session_snapshots st1 = session_snapshots st \<and>
        active_websockets st1 = active_websockets st"
    using expire_session_untouched[of e now s st] ex by simp
  then show ?case
    using ex Cons.IH[of st1] by (cases r) simp_all
qed

text \<open>
  A pass of the timeout checker writes no snapshot row and leaves the registry of
  subscribers alone, for every state and environment.
\<close>

lemma session_timeout_tick_untouched:
  "session_snapshots (session_timeout_tick e now st) = session_snapshots st \<and>
   active_websockets (session_timeout_tick e now st) = active_websockets st"
  by (simp add: session_timeout_tick_def Let_def expire_all_untouched)

text \<open>
  Claim C1 against the code. Bob's session, started at instant 100 and watched by
  websocket 7, is past its budget at instant 7400. The timeout checker marks it expired,
  writes the autosave and deletes the lock key, but no snapshot row exists for the session
  afterwards and websocket 7 is still subscribed. A release of the same session at the
  same instant writes the snapshot row and drops the subscribers.
\<close>

theorem expiry_without_snapshot_or_unsubscribe:
  "map status (sessions (session_timeout_tick env_up 7400 st_bob_watched)) = [Expired] \<and>
   map save_summary (saves (session_timeout_tick env_up 7400 st_bob_watched)) =
     [(''bob'', ''autosave_20260101_020320'', Some 42, 7400, 7300)] \<and>
   slot_locks (session_timeout_tick env_up 7400 st_bob_watched) 0 = None \<and>
   session_snapshots (session_timeout_tick env_up 7400 st_bob_watched) ''aaaa0001'' = None \<and>
   subscribers (session_timeout_tick env_up 7400 st_bob_watched) ''aaaa0001'' = [7] \<and>
   map status (sessions (snd (release_session env_up ''aaaa0001'' (Some ''s1'') 7400
                                st_bob_watched))) = [Completed] \<and>
   session_snapshots (snd (release_session env_up ''aaaa0001'' (Some ''s1'') 7400
                             st_bob_watched)) ''aaaa0001'' =
     Some \<lparr>sn_final_score = Some 42, sn_playtime_seconds = 7300, research_data = JNull,
           production_data = JNull, inventory_data = JNull, factory_data = JNull\<rparr> \<and>
   subscribers (snd (release_session env_up ''aaaa0001'' (Some ''s1'') 7400
                       st_bob_watched)) ''aaaa0001'' = []"
  by (simp add: subscribers_def save_summary_def TOTAL_SLOTS_def SESSION_TIMEOUT_HOURS_def BASE_RCON_PORT_def BASE_UDP_PORT_def
        isspace_def strip_def lower_char_def lower_def init_db_def is_active_def
        active_sessions_def get_free_slot_def upt_conv_Cons lock_held_def
        claim_slot_lock_def release_slot_lock_def given_name_def find_active_by_user_def
        find_by_id_def ensure_user_def new_session_def delete_session_def make_response_def
        claim_create_def claim_session_def Let_def stream_open_def dquote_def isdigit_def
        digit_val_def int_of_digits_def player_key_def match_player_at_def zero_score_def
        sync_get_slot_score_def get_slot_score_def save_path_def save_slot_state_def
        same_save_def insert_save_on_conflict_def new_save_def update_user_stats_def
        update_session_def autosave_def expire_session_def session_timeout_tick_def
        upsert_save_autosave_def find_active_by_id_def capture_snapshot_def
        save_if_requested_def upsert_save_release_def drop_websockets_def
        release_session_def env_up_def score_reply_def stamp_def st_bob_def
        st_bob_watched_def req_bob_def)

section \<open>A save that cannot be written\<close>

text \<open>
  Claim C2 against the code. Bob releases his active session at instant 200 and asks for
  the save \<^verbatim>\<open>s1\<close>, and writing the save file raises. The exception leaves
  \<^verbatim>\<open>release_session\<close>: the session row is still active and the lock of slot 0 is still
  held. The timeout checker, meeting the same failure at instant 7400, goes on: it marks
  the session expired and deletes the lock key.
\<close>

theorem release_blocked_by_save_failure:
  "fst (release_session env_save_fails ''aaaa0001'' (Some ''s1'') 200 st_bob) = Inl Exception \<and>
   map status (sessions (snd (release_session env_save_fails ''aaaa0001'' (Some ''s1'') 200
                                st_bob))) = [Active] \<and>
   lock_held (snd (release_session env_save_fails ''aaaa0001'' (Some ''s1'') 200 st_bob)) 200 0 \<and>
   map status (sessions (session_timeout_tick env_save_fails 7400 st_bob)) = [Expired] \<and>
   slot_locks (session_timeout_tick env_save_fails 7400 st_bob) 0 = None"
  by (simp add: TOTAL_SLOTS_def SESSION_TIMEOUT_HOURS_def BASE_RCON_PORT_def BASE_UDP_PORT_def
        isspace_def strip_def lower_char_def lower_def init_db_def is_active_def
        active_sessions_def get_free_slot_def upt_conv_Cons lock_held_def
        claim_slot_lock_def release_slot_lock_def given_name_def find_active_by_user_def
        find_by_id_def ensure_user_def new_session_def delete_session_def make_response_def
        claim_create_def claim_session_def Let_def dquote_def isdigit_def digit_val_def
        int_of_digits_def player_key_def match_player_at_def zero_score_def
        sync_get_slot_score_def get_slot_score_def save_path_def save_slot_state_def
        same_save_def insert_save_on_conflict_def new_save_def update_user_stats_def
        update_session_def find_active_by_id_def capture_snapshot_def save_if_requested_def
        upsert_save_release_def drop_websockets_def release_session_def autosave_def
        expire_session_def session_timeout_tick_def upsert_save_autosave_def
        env_save_fails_def env_up_def score_reply_def stamp_def st_bob_def req_bob_def)

lemma terminated_rows:
  assumes "x \<in> set (map (\<lambda>r. if session_id r = sid
                then r\<lparr>status := Completed, ended_at := Some now,
                       final_score := sc, save_created := nm\<rparr>
                else r) xs)"
    and "session_id x = sid"
  shows "status x \<noteq> Active"
proof -
  from assms(1) obtain r where "r \<in> set xs"
    and x: "x = (if session_id r = sid
                then r\<lparr>status := Completed, ended_at := Some now,
                       final_score := sc, save_created := nm\<rparr>
                else r)"
    by auto
  show ?thesis
  proof (cases "session_id r = sid")
    case True
    then show ?thesis using x by simp
  next
    case False
    then show ?thesis using x assms(2) by simp
  qed
qed

text \<open>
  What does hold of a release: when no save is asked for, or the save file can be written,
  and the score can be stored, the release of an active session ends it and deletes the
  lock key, whatever the score read and the snapshot capture meet.
\<close>

lemma release_session_completes:
  assumes "find_active_by_id st sid = Some s"
    and "given_name nm = None \<or> save_slot e (slot s) \<noteq> SaveRaises"
    and "storable e s"
  shows "\<exists>r. fst (release_session e sid nm now st) = Inr r"
    and "slot_locks (snd (release_session e sid nm now st)) (slot s) = None"
    and "find_active_by_id (snd (release_session e sid nm now st)) sid = None"
proof -
  define final where "final = sd_score (get_slot_score e (slot s))"
  define p where "p = now - started_at s"
  define st1 where "st1 = capture_snapshot e sid (slot s) final p st"
  obtain sc where sc: "pg_real final = Inr sc"
    using assms(3) by (auto simp: storable_def final_def split: sum.splits)
  have "\<exists>st2. save_if_requested e (slot s) (username s) nm final p now st1 = (Inr (), st2)"
  proof (cases "given_name nm")
    case None
    then show ?thesis by (simp add: save_if_requested_def)
  next
    case (Some n)
    then have "save_slot e (slot s) \<noteq> SaveRaises" using assms(2) by simp
    then show ?thesis
      using Some sc
      by (cases "save_slot e (slot s)") (simp_all add: save_if_requested_def save_slot_state_def)
  qed
  then obtain st2 where sv:
    "save_if_requested e (slot s) (username s) nm final p now st1 = (Inr (), st2)"
    by blast
  note unf = release_session_unfold[OF assms(1), of e nm now, folded final_def p_def,
      folded st1_def, unfolded sv]
  show "\<exists>r. fst (release_session e sid nm now st) = Inr r"
    unfolding unf by (simp add: sc)
  show "slot_locks (snd (release_session e sid nm now st)) (slot s) = None"
    unfolding unf by (simp add: sc drop_websockets_frame release_slot_lock_frame)
  have "sessions (snd (release_session e sid nm now st)) =
      map (\<lambda>r. if session_id r = sid
                then r\<lparr>status := Completed, ended_at := Some now,
                       final_score := sc, save_created := nm\<rparr>
                else r) (sessions st2)"
    unfolding unf
    by (simp add: sc drop_websockets_frame release_slot_lock_frame update_user_stats_frame
        update_session_frame)
  then show "find_active_by_id (snd (release_session e sid nm now st)) sid = None"
    by (simp only: find_active_by_id_None) (blast dest: terminated_rows)
qed

section \<open>Saving twice under one name\<close>

lemma map_filter_updated:
  assumes "\<And>r. P (g r) = P r"
  shows "map f (filter P (map (\<lambda>r. if P r then g r else r) xs)) =
         map (\<lambda>r. f (g r)) (filter P xs)"
  using assms by (induction xs) auto

text \<open>
  What does hold of the upsert of \<^verbatim>\<open>release_session\<close>: when the user has a row of that
  name, no row is added, the keys of the rows stay as they are, every row of that name
  takes the score and the instant of this call, and the playtime of this session is added
  to the playtime recorded.
\<close>

lemma upsert_save_release_conflict:
  assumes "list_ex (same_save uname nm) (saves st)"
  shows "length (saves (upsert_save_release uname nm sc playtime now st)) = length (saves st)
    \<and> map (\<lambda>r. (sv_username r, save_name r))
           (saves (upsert_save_release uname nm sc playtime now st)) =
         map (\<lambda>r. (sv_username r, save_name r)) (saves st)
    \<and> map (\<lambda>r. (score_at_save r, last_played r, playtime_seconds r))
          (filter (same_save uname nm)
             (saves (upsert_save_release uname nm sc playtime now st))) =
         map (\<lambda>r. (sc, now, playtime_seconds r + playtime))
           (filter (same_save uname nm) (saves st))"
proof -
  define g where "g = (\<lambda>r::save. r\<lparr>last_played := now, score_at_save := sc,
                       playtime_seconds := playtime_seconds r + playtime\<rparr>)"
  have m: "saves (upsert_save_release uname nm sc playtime now st) =
      map (\<lambda>r. if same_save uname nm r then g r else r) (saves st)"
    using assms
    by (simp add: upsert_save_release_def insert_save_on_conflict_def new_save_def g_def)
  have k: "same_save uname nm (g r) = same_save uname nm r" for r
    by (simp add: same_save_def g_def)
  have k2: "sv_username (g r) = sv_username r" "save_name (g r) = save_name r" for r
    by (simp_all add: g_def)
  have a: "map (\<lambda>r. (sv_username r, save_name r))
             (map (\<lambda>r. if same_save uname nm r then g r else r) xs) =
           map (\<lambda>r. (sv_username r, save_name r)) xs" for xs
    by (induction xs) (simp_all add: k2)
  have b: "map (\<lambda>r. (score_at_save r, last_played r, playtime_seconds r))
          (filter (same_save uname nm)
             (map (\<lambda>r. if same_save uname nm r then g r else r) (saves st))) =
         map (\<lambda>r. (score_at_save (g r), last_played (g r), playtime_seconds (g r)))
           (filter (same_save uname nm) (saves st))"
    by (rule map_filter_updated) (rule k)
  have c: "(score_at_save (g r), last_played (g r), playtime_seconds (g r)) =
           (sc, now, playtime_seconds r + playtime)" for r
    by (simp add: g_def)
  show ?thesis
    unfolding m by (simp add: a b c k2)
qed

text \<open>
  Claim C6 against the code. Bob has the save \<^verbatim>\<open>autosave_20260101_020140\<close> with a playtime
  of 30 seconds. His second session runs from instant 50 into the timeout, and the
  checker autosaves it at instant 7300 under that same name. The row is updated and not
  doubled, its score and its last-played instant are those of the autosave, but its
  playtime is still 30: the 7250 seconds of the second session are not added. A release of
  the second session under that name at the same instant gives the playtime 7280.
\<close>

theorem autosave_does_not_accumulate_playtime:
  "map save_summary (saves st_second_play) =
     [(''bob'', ''autosave_20260101_020140'', Some 42, 40, 30)] \<and>
   map save_summary (saves (session_timeout_tick env_up 7300 st_second_play)) =
     [(''bob'', ''autosave_20260101_020140'', Some 42, 7300, 30)] \<and>
   map status (sessions (session_timeout_tick env_up 7300 st_second_play)) =
     [Completed, Expired] \<and>
   map save_summary
     (saves (snd (release_session env_up ''aaaa0003'' (Some ''autosave_20260101_020140'') 7300
                    st_second_play))) =
     [(''bob'', ''autosave_20260101_020140'', Some 42, 7300, 7280)]"
  by (simp add: save_summary_def TOTAL_SLOTS_def SESSION_TIMEOUT_HOURS_def BASE_RCON_PORT_def BASE_UDP_PORT_def
        isspace_def strip_def lower_char_def lower_def init_db_def is_active_def
        active_sessions_def get_free_slot_def upt_conv_Cons lock_held_def
        claim_slot_lock_def release_slot_lock_def given_name_def find_active_by_user_def
        find_by_id_def ensure_user_def new_session_def delete_session_def make_response_def
        claim_create_def claim_session_def Let_def dquote_def isdigit_def digit_val_def
        int_of_digits_def player_key_def match_player_at_def zero_score_def
        sync_get_slot_score_def get_slot_score_def save_path_def save_slot_state_def
        same_save_def insert_save_on_conflict_def new_save_def update_user_stats_def
        update_session_def find_active_by_id_def capture_snapshot_def save_if_requested_def
        upsert_save_release_def drop_websockets_def release_session_def autosave_def
        expire_session_def session_timeout_tick_def upsert_save_autosave_def env_up_def
        score_reply_def stamp_def st_first_play_def st_second_play_def req_bob_def)

end
